theory Spec2Isabelle
  imports Complex_Main
begin

section \<open>Data model\<close>

text \<open>
  The enums of the schema migration (\<^verbatim>\<open>CREATE TYPE "ErrorSeverity"\<close>, \<^verbatim>\<open>"ErrorCategory"\<close>,
  \<^verbatim>\<open>"ApprovalStatus"\<close>, \<^verbatim>\<open>"MessageType"\<close>) and the message roles.
\<close>

datatype ErrorSeverity = LOW | MEDIUM | HIGH | CRITICAL

datatype ErrorCategory = COMPILATION | DEPENDENCY | SYNTAX | LOGIC | INFRASTRUCTURE | USER_INPUT

datatype ApprovalStatus = PENDING | APPROVED | REJECTED | AUTO_FIXED

datatype MessageRole = USER | ASSISTANT

datatype MessageType = RESULT | ERROR | APPROVAL_REQUEST

text \<open>
  JavaScript values that are passed around opaquely (the \<^verbatim>\<open>context\<close> of an error, the
  object given to \<^verbatim>\<open>JSON.stringify\<close>). Numbers are the numbers their literals denote;
  the program only compares them.
\<close>

datatype Json =
    JNull
  | JBool bool
  | JNum real
  | JStr string
  | JArr "Json list"
  | JObj "(string \<times> Json) list"

text \<open>Row identifiers are the strings the store hands out.\<close>

type_synonym Id = string

text \<open>
  The content of a conversation entry: a template string, or the text
  \<^verbatim>\<open>JSON.stringify(v)\<close> of a value \<open>v\<close>, kept as that value.
\<close>

datatype Content = Plain string | Stringified Json

record Project =
  project_id :: Id
  userId :: string

record Message =
  message_id :: Id
  projectId :: Id
  content :: Content
  role :: MessageRole
  msgType :: MessageType

record Fragment =
  fragment_messageId :: Id
  sandboxUrl :: "string option"

text \<open>
  The fix payload is untyped JSON in the source (\<^verbatim>\<open>fixData: any\<close>): a \<^verbatim>\<open>type\<close> tag and two
  arrays, either of which may be absent.
\<close>

record FileChange =
  path :: string
  fileContent :: string

record FixData =
  fixType :: string
  commands :: "string list option"
  files :: "FileChange list option"

text \<open>The analysis returned by \<^verbatim>\<open>analyzeError\<close> and the draft returned by \<^verbatim>\<open>generateFix\<close>.\<close>

record ErrorAnalysis =
  category :: ErrorCategory
  severity :: ErrorSeverity
  diagnostic :: string
  canAutoFix :: bool
  analysisConfidence :: real
  suggestedActions :: "string list"

record FixDraft =
  description :: string
  fixData :: FixData
  reasoning :: string
  confidence :: real

record ErrorData =
  errorText :: string
  errorContext :: Json
  analysis :: ErrorAnalysis

record ErrorLog =
  errorLog_id :: Id
  messageId :: Id
  log_category :: ErrorCategory
  log_severity :: ErrorSeverity
  errorData :: ErrorData
  log_diagnostic :: string

record ProposedFix = FixDraft +
  fix_id :: Id
  errorLogId :: Id
  status :: ApprovalStatus
  reviewedBy :: "string option"
  reviewedAt :: "nat option"
  feedback :: "string option"

section \<open>The sandbox collaborator\<close>

text \<open>
  The sandbox is reached through \<^verbatim>\<open>getSandbox(id)\<close>, \<^verbatim>\<open>sandbox.commands.run(cmd)\<close> and
  \<^verbatim>\<open>sandbox.files.write(path, content)\<close>; each call either returns or throws. What the
  program can observe of it is which calls throw, which may depend on all the calls made
  before: a sandbox is a function from the history of calls and the next call to the
  error thrown, if any. The history is kept in the world state.
\<close>

datatype SandboxCall =
    GetSandbox string
  | RunCommand string string
  | WriteFile string string string

type_synonym Sandbox = "SandboxCall list \<Rightarrow> SandboxCall \<Rightarrow> string option"

text \<open>A \<^verbatim>\<open>for ... of\<close> loop of awaited sandbox calls: the first one to throw ends the loop.\<close>

fun each_call :: "Sandbox \<Rightarrow> SandboxCall list \<Rightarrow> SandboxCall list \<Rightarrow> string option \<times> SandboxCall list" where
  "each_call sb [] hist = (None, hist)"
| "each_call sb (c # cs) hist =
     (case sb hist c of
        Some e \<Rightarrow> (Some e, hist @ [c])
      | None \<Rightarrow> each_call sb cs (hist @ [c]))"

definition run_commands :: "Sandbox \<Rightarrow> string \<Rightarrow> string list \<Rightarrow> SandboxCall list \<Rightarrow> string option \<times> SandboxCall list" where
  "run_commands sb sid cs hist = each_call sb (map (RunCommand sid) cs) hist"

definition write_files :: "Sandbox \<Rightarrow> string \<Rightarrow> FileChange list \<Rightarrow> SandboxCall list \<Rightarrow> string option \<times> SandboxCall list" where
  "write_files sb sid fs hist = each_call sb (map (\<lambda>f. WriteFile sid (path f) (fileContent f)) fs) hist"

definition getSandbox :: "Sandbox \<Rightarrow> string \<Rightarrow> SandboxCall list \<Rightarrow> string option \<times> SandboxCall list" where
  "getSandbox sb sid hist = (sb hist (GetSandbox sid), hist @ [GetSandbox sid])"

section \<open>Fix executor\<close>

record ExecResult =
  success :: bool
  error :: "string option"

text \<open>
  The body of the \<^verbatim>\<open>try\<close> block of \<^verbatim>\<open>executeProposedFix\<close>: the error thrown (if any) and the
  history of sandbox calls. \<^verbatim>\<open>!sandboxId\<close> holds of \<^verbatim>\<open>undefined\<close> and of the empty string.
  Iterating an absent array throws a \<^verbatim>\<open>TypeError\<close>; the \<^verbatim>\<open>multiStep\<close> branch tests the arrays
  first. A tag other than the three runs nothing.
\<close>

definition not_iterable :: "string \<Rightarrow> string" where
  "not_iterable what = ''TypeError: '' @ what @ '' is not iterable''"

definition execute_try :: "Sandbox \<Rightarrow> FixData \<Rightarrow> string option \<Rightarrow> SandboxCall list \<Rightarrow> string option \<times> SandboxCall list" where
  "execute_try sb fd sandboxId hist =
     (if fixType fd = ''command'' then
        (case sandboxId of
           None \<Rightarrow> (Some ''Error: Sandbox ID required for command execution'', hist)
         | Some sid \<Rightarrow>
             if sid = [] then (Some ''Error: Sandbox ID required for command execution'', hist)
             else (case getSandbox sb sid hist of
                     (Some e, hist1) \<Rightarrow> (Some e, hist1)
                   | (None, hist1) \<Rightarrow>
                       (case commands fd of
                          None \<Rightarrow> (Some (not_iterable ''fixData.commands''), hist1)
                        | Some cs \<Rightarrow> run_commands sb sid cs hist1)))
      else if fixType fd = ''fileChange'' then
        (case sandboxId of
           None \<Rightarrow> (Some ''Error: Sandbox ID required for file changes'', hist)
         | Some sid \<Rightarrow>
             if sid = [] then (Some ''Error: Sandbox ID required for file changes'', hist)
             else (case getSandbox sb sid hist of
                     (Some e, hist1) \<Rightarrow> (Some e, hist1)
                   | (None, hist1) \<Rightarrow>
                       (case files fd of
                          None \<Rightarrow> (Some (not_iterable ''fixData.files''), hist1)
                        | Some fs \<Rightarrow> write_files sb sid fs hist1)))
      else if fixType fd = ''multiStep'' then
        (case sandboxId of
           None \<Rightarrow> (Some ''Error: Sandbox ID required for multi-step fixes'', hist)
         | Some sid \<Rightarrow>
             if sid = [] then (Some ''Error: Sandbox ID required for multi-step fixes'', hist)
             else (case getSandbox sb sid hist of
                     (Some e, hist1) \<Rightarrow> (Some e, hist1)
                   | (None, hist1) \<Rightarrow>
                       (case (case commands fd of
                                None \<Rightarrow> (None, hist1)
                              | Some cs \<Rightarrow> run_commands sb sid cs hist1) of
                          (Some e, hist2) \<Rightarrow> (Some e, hist2)
                        | (None, hist2) \<Rightarrow>
                            (case files fd of
                               None \<Rightarrow> (None, hist2)
                             | Some fs \<Rightarrow> write_files sb sid fs hist2))))
      else (None, hist))"

text \<open>
  \<^verbatim>\<open>executeProposedFix\<close>: the \<^verbatim>\<open>catch\<close> turns whatever was thrown into a result; the
  function itself never throws.
\<close>

definition executeProposedFix :: "Sandbox \<Rightarrow> ProposedFix \<Rightarrow> string option \<Rightarrow> SandboxCall list \<Rightarrow> ExecResult \<times> SandboxCall list" where
  "executeProposedFix sb proposedFix sandboxId hist =
     (case execute_try sb (fixData proposedFix) sandboxId hist of
        (None, hist') \<Rightarrow> (\<lparr>success = True, error = None\<rparr>, hist')
      | (Some e, hist') \<Rightarrow> (\<lparr>success = False, error = Some e\<rparr>, hist'))"

section \<open>The store and the reasoning backend\<close>

text \<open>
  The world a request runs in: the tables of the store, the counter behind the
  identifiers it hands out, the history of sandbox calls, and the names of the agents run
  so far. The \<^verbatim>\<open>createdAt\<close> and \<^verbatim>\<open>updatedAt\<close> columns are left out; the store accepts every
  write of a well-typed row.
\<close>

record World =
  projects :: "Project list"
  messages :: "Message list"
  fragments :: "Fragment list"
  errorLogs :: "ErrorLog list"
  proposedFixes :: "ProposedFix list"
  idCounter :: nat
  sandboxCalls :: "SandboxCall list"
  agentRuns :: "string list"

text \<open>
  A call of the reasoning backend followed by \<^verbatim>\<open>JSON.parse\<close>: \<^verbatim>\<open>agent.run\<close> throws, the
  output does not parse, or it parses to a value (taken at the shape the store's columns
  require).
\<close>

datatype 'a Reply = RunThrows | ParseThrows | Parsed 'a

text \<open>
  What the program is given from outside: the identifier generator of the store (the
  \<open>k\<close>-th identifier), the sandbox, and the two agents. The fix generator may parse to
  \<^verbatim>\<open>null\<close>, which is \<open>Parsed None\<close>.
\<close>

record Env =
  newId :: "nat \<Rightarrow> Id"
  sandbox :: Sandbox
  errorAnalyzer :: "string \<Rightarrow> Json \<Rightarrow> ErrorAnalysis Reply"
  fixGenerator :: "ErrorAnalysis \<Rightarrow> string \<Rightarrow> Json \<Rightarrow> FixDraft option Reply"

definition message_create :: "Env \<Rightarrow> Id \<Rightarrow> Content \<Rightarrow> MessageRole \<Rightarrow> MessageType \<Rightarrow> World \<Rightarrow> Message \<times> World" where
  "message_create env pid c r t w =
     (let m = \<lparr>message_id = newId env (idCounter w), projectId = pid, content = c,
                role = r, msgType = t\<rparr>
      in (m, w\<lparr>messages := messages w @ [m], idCounter := Suc (idCounter w)\<rparr>))"

definition errorLog_create :: "Env \<Rightarrow> Id \<Rightarrow> ErrorCategory \<Rightarrow> ErrorSeverity \<Rightarrow> ErrorData \<Rightarrow> string \<Rightarrow> World \<Rightarrow> ErrorLog \<times> World" where
  "errorLog_create env mid cat sev dat diag w =
     (let l = \<lparr>errorLog_id = newId env (idCounter w), messageId = mid, log_category = cat,
                log_severity = sev, errorData = dat, log_diagnostic = diag\<rparr>
      in (l, w\<lparr>errorLogs := errorLogs w @ [l], idCounter := Suc (idCounter w)\<rparr>))"

text \<open>The columns not given at creation (\<^verbatim>\<open>reviewedBy\<close>, \<^verbatim>\<open>reviewedAt\<close>, \<^verbatim>\<open>feedback\<close>) are null.\<close>

definition proposedFix_create :: "Env \<Rightarrow> Id \<Rightarrow> FixDraft \<Rightarrow> ApprovalStatus \<Rightarrow> World \<Rightarrow> ProposedFix \<times> World" where
  "proposedFix_create env lid d st w =
     (let f = \<lparr>description = description d, fixData = fixData d, reasoning = reasoning d,
                confidence = confidence d, fix_id = newId env (idCounter w), errorLogId = lid,
                status = st, reviewedBy = None, reviewedAt = None, feedback = None\<rparr>
      in (f, w\<lparr>proposedFixes := proposedFixes w @ [f], idCounter := Suc (idCounter w)\<rparr>))"

section \<open>Error analysis, fix generation and the error handler\<close>

definition fallbackAnalysis :: ErrorAnalysis where
  "fallbackAnalysis =
     \<lparr>category = INFRASTRUCTURE, severity = HIGH, diagnostic = ''Failed to analyze error'',
      canAutoFix = False, analysisConfidence = 0.0,
      suggestedActions = [''Manual review required'']\<rparr>"

text \<open>
  \<^verbatim>\<open>analyzeError\<close>: runs the agent named \<^verbatim>\<open>error-analyzer\<close>; whatever is thrown inside the
  \<^verbatim>\<open>try\<close> is replaced by the fallback.
\<close>

definition analyzeError :: "Env \<Rightarrow> string \<Rightarrow> Json \<Rightarrow> World \<Rightarrow> ErrorAnalysis \<times> World" where
  "analyzeError env err ctx w =
     (case errorAnalyzer env err ctx of
        Parsed a \<Rightarrow> a
      | RunThrows \<Rightarrow> fallbackAnalysis
      | ParseThrows \<Rightarrow> fallbackAnalysis,
      w\<lparr>agentRuns := agentRuns w @ [''error-analyzer'']\<rparr>)"

text \<open>\<^verbatim>\<open>generateFix\<close>: runs the agent named \<^verbatim>\<open>fix-generator\<close>; \<^verbatim>\<open>null\<close> when anything is thrown.\<close>

definition generateFix :: "Env \<Rightarrow> ErrorAnalysis \<Rightarrow> string \<Rightarrow> Json \<Rightarrow> World \<Rightarrow> FixDraft option \<times> World" where
  "generateFix env errorAnalysis err ctx w =
     (case fixGenerator env errorAnalysis err ctx of
        Parsed d \<Rightarrow> d
      | RunThrows \<Rightarrow> None
      | ParseThrows \<Rightarrow> None,
      w\<lparr>agentRuns := agentRuns w @ [''fix-generator'']\<rparr>)"

text \<open>The object serialised into an approval request.\<close>

definition approval_request :: "ErrorLog \<Rightarrow> FixDraft \<Rightarrow> Json" where
  "approval_request errorLog proposedFix =
     JObj [(''type'', JStr ''approval_request''),
           (''errorLogId'', JStr (errorLog_id errorLog)),
           (''description'', JStr (description proposedFix)),
           (''reasoning'', JStr (reasoning proposedFix)),
           (''confidence'', JNum (confidence proposedFix))]"

text \<open>
  The \<^verbatim>\<open>try\<close> block of \<^verbatim>\<open>handleError\<close>. The error is \<open>Some t\<close> for a value whose
  \<^verbatim>\<open>toString()\<close> is \<open>t\<close>, and \<open>None\<close> for \<^verbatim>\<open>null\<close> or \<^verbatim>\<open>undefined\<close>, on which \<^verbatim>\<open>toString\<close>
  throws before anything is written (\<open>Inl\<close>: the thrown value is only logged). The
  automatic path only logs to the console (\<^verbatim>\<open>// TODO: Implement auto-fix execution\<close>), which
  changes nothing of the world; the handler is not given the sandbox.
\<close>

definition handleError_try :: "Env \<Rightarrow> string option \<Rightarrow> Json \<Rightarrow> Id \<Rightarrow> World \<Rightarrow> (unit + Message) \<times> World" where
  "handleError_try env err ctx pid w =
     (case err of
        None \<Rightarrow> (Inl (), w)
      | Some t \<Rightarrow>
          (case message_create env pid (Plain (''Error occurred: '' @ t)) ASSISTANT ERROR w of
             (errorMessage, w1) \<Rightarrow>
          (case analyzeError env t ctx w1 of
             (errorAnalysis, w2) \<Rightarrow>
          (case errorLog_create env (message_id errorMessage) (category errorAnalysis)
                  (severity errorAnalysis)
                  \<lparr>errorText = t, errorContext = ctx, analysis = errorAnalysis\<rparr>
                  (diagnostic errorAnalysis) w2 of
             (errorLog, w3) \<Rightarrow>
          if canAutoFix errorAnalysis \<and> analysisConfidence errorAnalysis > 0.7 then
            (case generateFix env errorAnalysis t ctx w3 of
               (None, w4) \<Rightarrow> (Inr errorMessage, w4)
             | (Some proposedFix, w4) \<Rightarrow>
                 (case proposedFix_create env (errorLog_id errorLog) proposedFix
                         (if severity errorAnalysis = LOW \<and> confidence proposedFix > 0.8
                          then AUTO_FIXED else PENDING) w4 of
                    (created, w5) \<Rightarrow>
                 if severity errorAnalysis = LOW \<and> confidence proposedFix > 0.8 then
                   (Inr errorMessage, w5)
                 else
                   (Inr errorMessage,
                    snd (message_create env pid
                           (Stringified (approval_request errorLog proposedFix))
                           ASSISTANT APPROVAL_REQUEST w5))))
          else (Inr errorMessage, w3)))))"

text \<open>\<^verbatim>\<open>handleError\<close>: the \<^verbatim>\<open>catch\<close> writes the generic message instead.\<close>

definition handleError :: "Env \<Rightarrow> string option \<Rightarrow> Json \<Rightarrow> Id \<Rightarrow> World \<Rightarrow> Message \<times> World" where
  "handleError env err ctx pid w =
     (case handleError_try env err ctx pid w of
        (Inr errorMessage, w') \<Rightarrow> (errorMessage, w')
      | (Inl e, w') \<Rightarrow>
          message_create env pid (Plain ''Something went wrong. Please try again.'')
            ASSISTANT ERROR w')"

section \<open>The approval procedures\<close>

text \<open>
  Errors thrown to the caller of a procedure: a code of the tRPC library and a message.
\<close>

datatype TRPC_ERROR_CODE =
    BAD_REQUEST | UNAUTHORIZED | FORBIDDEN | NOT_FOUND | CONFLICT | INTERNAL_SERVER_ERROR

record TRPCError =
  code :: TRPC_ERROR_CODE
  message :: string

text \<open>
  The inputs, as the \<^verbatim>\<open>zod\<close> schemas let them through to the handlers: \<^verbatim>\<open>proposedFixId\<close> is
  not empty; the feedback of an approval is optional, that of a rejection is not empty.
\<close>

record ApproveInput =
  approve_proposedFixId :: Id
  approve_feedback :: "string option"

record RejectInput =
  reject_proposedFixId :: Id
  reject_feedback :: string

definition approve_input_ok :: "ApproveInput \<Rightarrow> bool" where
  "approve_input_ok inp = (approve_proposedFixId inp \<noteq> [])"

definition reject_input_ok :: "RejectInput \<Rightarrow> bool" where
  "reject_input_ok inp = (reject_proposedFixId inp \<noteq> [] \<and> reject_feedback inp \<noteq> [])"

text \<open>
  \<^verbatim>\<open>prisma.proposedFix.findUnique\<close> with its \<^verbatim>\<open>include\<close>: the fix, its error log, the
  message of the log, the project of the message and the fragment of the message, if it
  has one. The foreign keys of the schema are not null, so a fix whose chain is broken is
  not a row of the store; it is not found.
\<close>

record FixWithRelations =
  the_fix :: ProposedFix
  the_errorLog :: ErrorLog
  the_message :: Message
  the_project :: Project
  the_fragment :: "Fragment option"

definition proposedFix_findUnique :: "Id \<Rightarrow> World \<Rightarrow> FixWithRelations option" where
  "proposedFix_findUnique i w =
     (case find (\<lambda>f. fix_id f = i) (proposedFixes w) of
        None \<Rightarrow> None
      | Some f \<Rightarrow>
     (case find (\<lambda>l. errorLog_id l = errorLogId f) (errorLogs w) of
        None \<Rightarrow> None
      | Some l \<Rightarrow>
     (case find (\<lambda>m. message_id m = messageId l) (messages w) of
        None \<Rightarrow> None
      | Some m \<Rightarrow>
     (case find (\<lambda>p. project_id p = projectId m) (projects w) of
        None \<Rightarrow> None
      | Some p \<Rightarrow>
          Some \<lparr>the_fix = f, the_errorLog = l, the_message = m, the_project = p,
                the_fragment = find (\<lambda>g. fragment_messageId g = message_id m) (fragments w)\<rparr>))))"

text \<open>
  \<^verbatim>\<open>prisma.proposedFix.update\<close>, keyed by the identifier alone: it writes the four columns
  of the row with that identifier and returns the row, and throws when there is none (an
  error that is not a \<^verbatim>\<open>TRPCError\<close> reaches the caller as \<open>INTERNAL_SERVER_ERROR\<close>; the
  message stands for the one of the store).
\<close>

definition review :: "ApprovalStatus \<Rightarrow> string \<Rightarrow> nat \<Rightarrow> string \<Rightarrow> ProposedFix \<Rightarrow> ProposedFix" where
  "review st uid now fb f =
     f\<lparr>status := st, reviewedBy := Some uid, reviewedAt := Some now, feedback := Some fb\<rparr>"

definition record_not_found :: TRPCError where
  "record_not_found = \<lparr>code = INTERNAL_SERVER_ERROR, message = ''Record to update not found.''\<rparr>"

definition proposedFix_update :: "Id \<Rightarrow> (ProposedFix \<Rightarrow> ProposedFix) \<Rightarrow> World \<Rightarrow> (TRPCError + ProposedFix) \<times> World" where
  "proposedFix_update i g w =
     (case find (\<lambda>f. fix_id f = i) (proposedFixes w) of
        None \<Rightarrow> (Inl record_not_found, w)
      | Some f \<Rightarrow>
          (Inr (g f),
           w\<lparr>proposedFixes := map (\<lambda>f. if fix_id f = i then g f else f) (proposedFixes w)\<rparr>))"

text \<open>The two emoji of the result messages, as their UTF-8 bytes (U+2705 and U+274C).\<close>

definition check_mark :: string where
  "check_mark = [CHR 0xE2, CHR 0x9C, CHR 0x85]"

definition cross_mark :: string where
  "cross_mark = [CHR 0xE2, CHR 0x9D, CHR 0x8C]"

text \<open>\<^verbatim>\<open>input.feedback || d\<close>: the default stands in for a missing and for an empty feedback.\<close>

definition or_default :: "string option \<Rightarrow> string \<Rightarrow> string" where
  "or_default fb d = (case fb of None \<Rightarrow> d | Some s \<Rightarrow> if s = [] then d else s)"

text \<open>A template literal prints an absent value as \<^verbatim>\<open>undefined\<close>.\<close>

definition interpolate :: "string option \<Rightarrow> string" where
  "interpolate v = (case v of None \<Rightarrow> ''undefined'' | Some s \<Rightarrow> s)"

subsection \<open>\<^verbatim>\<open>approveFix\<close>, one awaited operation at a time\<close>

text \<open>The read and the three checks that follow it.\<close>

definition approve_find :: "ApproveInput \<Rightarrow> string \<Rightarrow> World \<Rightarrow> TRPCError + FixWithRelations" where
  "approve_find inp uid w =
     (case proposedFix_findUnique (approve_proposedFixId inp) w of
        None \<Rightarrow> Inl \<lparr>code = NOT_FOUND, message = ''Proposed fix not found''\<rparr>
      | Some proposedFix \<Rightarrow>
          if userId (the_project proposedFix) \<noteq> uid then
            Inl \<lparr>code = FORBIDDEN, message = ''Not authorized''\<rparr>
          else if status (the_fix proposedFix) \<noteq> PENDING then
            Inl \<lparr>code = BAD_REQUEST, message = ''Fix already processed''\<rparr>
          else Inr proposedFix)"

text \<open>
  The execution, when the fragment has a sandbox URL: the sandbox identifier is
  \<^verbatim>\<open>sandboxUrl.split('.')[0]\<close>, the part of the URL before its first dot.
\<close>

definition approve_execute :: "Env \<Rightarrow> FixWithRelations \<Rightarrow> World \<Rightarrow> ExecResult \<times> World" where
  "approve_execute env proposedFix w =
     (case the_fragment proposedFix of
        None \<Rightarrow> (\<lparr>success = True, error = None\<rparr>, w)
      | Some fragment \<Rightarrow>
          (case sandboxUrl fragment of
             None \<Rightarrow> (\<lparr>success = True, error = None\<rparr>, w)
           | Some url \<Rightarrow>
               if url = [] then (\<lparr>success = True, error = None\<rparr>, w)
               else
                 (case executeProposedFix (sandbox env) (the_fix proposedFix)
                         (Some (takeWhile (\<lambda>c. c \<noteq> CHR ''.'') url)) (sandboxCalls w) of
                    (executionResult, hist) \<Rightarrow> (executionResult, w\<lparr>sandboxCalls := hist\<rparr>))))"

definition approve_update :: "ApproveInput \<Rightarrow> string \<Rightarrow> nat \<Rightarrow> ExecResult \<Rightarrow> World \<Rightarrow> (TRPCError + ProposedFix) \<times> World" where
  "approve_update inp uid now executionResult w =
     proposedFix_update (approve_proposedFixId inp)
       (review (if success executionResult then APPROVED else PENDING) uid now
          (or_default (approve_feedback inp)
             (''Fix '' @ (if success executionResult then ''applied successfully''
                          else ''failed to apply''))))
       w"

definition approve_message :: "Env \<Rightarrow> FixWithRelations \<Rightarrow> ExecResult \<Rightarrow> World \<Rightarrow> Message \<times> World" where
  "approve_message env proposedFix executionResult w =
     message_create env (projectId (the_message proposedFix))
       (Plain (if success executionResult
               then check_mark @ '' Fix applied: '' @ description (the_fix proposedFix)
               else cross_mark @ '' Fix failed: '' @ description (the_fix proposedFix)
                      @ ''. Error: '' @ interpolate (error executionResult)))
       ASSISTANT RESULT w"

record ApproveResponse =
  response_success :: bool
  response_proposedFix :: ProposedFix
  executionError :: "string option"

text \<open>The handler of \<^verbatim>\<open>approveFix\<close>, for a caller \<open>uid\<close> at time \<open>now\<close>.\<close>

definition approveFix :: "Env \<Rightarrow> ApproveInput \<Rightarrow> string \<Rightarrow> nat \<Rightarrow> World \<Rightarrow> (TRPCError + ApproveResponse) \<times> World" where
  "approveFix env inp uid now w =
     (case approve_find inp uid w of
        Inl e \<Rightarrow> (Inl e, w)
      | Inr proposedFix \<Rightarrow>
     (case approve_execute env proposedFix w of
        (executionResult, w1) \<Rightarrow>
     (case approve_update inp uid now executionResult w1 of
        (Inl e, w2) \<Rightarrow> (Inl e, w2)
      | (Inr updatedFix, w2) \<Rightarrow>
          (Inr \<lparr>response_success = success executionResult,
                response_proposedFix = updatedFix,
                executionError = error executionResult\<rparr>,
           snd (approve_message env proposedFix executionResult w2)))))"

subsection \<open>\<^verbatim>\<open>rejectFix\<close>\<close>

definition reject_find :: "RejectInput \<Rightarrow> string \<Rightarrow> World \<Rightarrow> TRPCError + FixWithRelations" where
  "reject_find inp uid w =
     (case proposedFix_findUnique (reject_proposedFixId inp) w of
        None \<Rightarrow> Inl \<lparr>code = NOT_FOUND, message = ''Proposed fix not found''\<rparr>
      | Some proposedFix \<Rightarrow>
          if userId (the_project proposedFix) \<noteq> uid then
            Inl \<lparr>code = FORBIDDEN, message = ''Not authorized''\<rparr>
          else if status (the_fix proposedFix) \<noteq> PENDING then
            Inl \<lparr>code = BAD_REQUEST, message = ''Fix already processed''\<rparr>
          else Inr proposedFix)"

definition reject_update :: "RejectInput \<Rightarrow> string \<Rightarrow> nat \<Rightarrow> World \<Rightarrow> (TRPCError + ProposedFix) \<times> World" where
  "reject_update inp uid now w =
     proposedFix_update (reject_proposedFixId inp) (review REJECTED uid now (reject_feedback inp)) w"

definition reject_message :: "Env \<Rightarrow> RejectInput \<Rightarrow> FixWithRelations \<Rightarrow> World \<Rightarrow> Message \<times> World" where
  "reject_message env inp proposedFix w =
     message_create env (projectId (the_message proposedFix))
       (Plain (cross_mark @ '' Fix rejected: '' @ description (the_fix proposedFix)
                 @ ''. Reason: '' @ reject_feedback inp))
       ASSISTANT RESULT w"

definition rejectFix :: "Env \<Rightarrow> RejectInput \<Rightarrow> string \<Rightarrow> nat \<Rightarrow> World \<Rightarrow> (TRPCError + ProposedFix) \<times> World" where
  "rejectFix env inp uid now w =
     (case reject_find inp uid w of
        Inl e \<Rightarrow> (Inl e, w)
      | Inr proposedFix \<Rightarrow>
     (case reject_update inp uid now w of
        (Inl e, w1) \<Rightarrow> (Inl e, w1)
      | (Inr updatedFix, w1) \<Rightarrow>
          (Inr updatedFix, snd (reject_message env inp proposedFix w1))))"

section \<open>Requests that overlap\<close>

text \<open>
  A handler gives up control at every \<^verbatim>\<open>await\<close>, and another request may run between two
  of its store operations. A request in flight is the handler's input together with the
  point it has reached and the values it holds there; a step runs it up to its next
  awaited operation. (The execution of a fix counts as one step.)
\<close>

datatype ApprovePc =
    A_Find
  | A_Execute FixWithRelations
  | A_Update FixWithRelations ExecResult
  | A_Message FixWithRelations ExecResult ProposedFix
  | A_Returned "TRPCError + ApproveResponse"

datatype RejectPc =
    R_Find
  | R_Update FixWithRelations
  | R_Message FixWithRelations ProposedFix
  | R_Returned "TRPCError + ProposedFix"

fun approve_step :: "Env \<Rightarrow> ApproveInput \<Rightarrow> string \<Rightarrow> nat \<Rightarrow> ApprovePc \<Rightarrow> World \<Rightarrow> ApprovePc \<times> World" where
  "approve_step env inp uid now A_Find w =
     (case approve_find inp uid w of
        Inl e \<Rightarrow> (A_Returned (Inl e), w)
      | Inr proposedFix \<Rightarrow> (A_Execute proposedFix, w))"
| "approve_step env inp uid now (A_Execute proposedFix) w =
     (case approve_execute env proposedFix w of
        (executionResult, w1) \<Rightarrow> (A_Update proposedFix executionResult, w1))"
| "approve_step env inp uid now (A_Update proposedFix executionResult) w =
     (case approve_update inp uid now executionResult w of
        (Inl e, w2) \<Rightarrow> (A_Returned (Inl e), w2)
      | (Inr updatedFix, w2) \<Rightarrow> (A_Message proposedFix executionResult updatedFix, w2))"
| "approve_step env inp uid now (A_Message proposedFix executionResult updatedFix) w =
     (A_Returned (Inr \<lparr>response_success = success executionResult,
                        response_proposedFix = updatedFix,
                        executionError = error executionResult\<rparr>),
      snd (approve_message env proposedFix executionResult w))"
| "approve_step env inp uid now (A_Returned r) w = (A_Returned r, w)"

fun reject_step :: "Env \<Rightarrow> RejectInput \<Rightarrow> string \<Rightarrow> nat \<Rightarrow> RejectPc \<Rightarrow> World \<Rightarrow> RejectPc \<times> World" where
  "reject_step env inp uid now R_Find w =
     (case reject_find inp uid w of
        Inl e \<Rightarrow> (R_Returned (Inl e), w)
      | Inr proposedFix \<Rightarrow> (R_Update proposedFix, w))"
| "reject_step env inp uid now (R_Update proposedFix) w =
     (case reject_update inp uid now w of
        (Inl e, w1) \<Rightarrow> (R_Returned (Inl e), w1)
      | (Inr updatedFix, w1) \<Rightarrow> (R_Message proposedFix updatedFix, w1))"
| "reject_step env inp uid now (R_Message proposedFix updatedFix) w =
     (R_Returned (Inr updatedFix), snd (reject_message env inp proposedFix w))"
| "reject_step env inp uid now (R_Returned r) w = (R_Returned r, w)"

datatype Task =
    ApproveTask ApproveInput string nat ApprovePc
  | RejectTask RejectInput string nat RejectPc

fun task_step :: "Env \<Rightarrow> Task \<Rightarrow> World \<Rightarrow> Task \<times> World" where
  "task_step env (ApproveTask inp uid now pc) w =
     (case approve_step env inp uid now pc w of (pc', w') \<Rightarrow> (ApproveTask inp uid now pc', w'))"
| "task_step env (RejectTask inp uid now pc) w =
     (case reject_step env inp uid now pc w of (pc', w') \<Rightarrow> (RejectTask inp uid now pc', w'))"

text \<open>A schedule names, step by step, the request that runs next.\<close>

fun run_schedule :: "Env \<Rightarrow> nat list \<Rightarrow> Task list \<Rightarrow> World \<Rightarrow> Task list \<times> World" where
  "run_schedule env [] ts w = (ts, w)"
| "run_schedule env (i # sched) ts w =
     (if i < length ts then
        (case task_step env (ts ! i) w of (t', w') \<Rightarrow> run_schedule env sched (ts[i := t']) w')
      else run_schedule env sched ts w)"

fun target :: "Task \<Rightarrow> Id" where
  "target (ApproveTask inp uid now pc) = approve_proposedFixId inp"
| "target (RejectTask inp uid now pc) = reject_proposedFixId inp"

fun caller :: "Task \<Rightarrow> string" where
  "caller (ApproveTask inp uid now pc) = uid"
| "caller (RejectTask inp uid now pc) = uid"

fun starting :: "Task \<Rightarrow> bool" where
  "starting (ApproveTask inp uid now pc) = (pc = A_Find)"
| "starting (RejectTask inp uid now pc) = (pc = R_Find)"

text \<open>What a request returned: the row it wrote, or the code of the error it threw.\<close>

fun returned_fix :: "Task \<Rightarrow> ProposedFix option" where
  "returned_fix (ApproveTask inp uid now (A_Returned (Inr r))) = Some (response_proposedFix r)"
| "returned_fix (RejectTask inp uid now (R_Returned (Inr f))) = Some f"
| "returned_fix t = None"

fun thrown :: "Task \<Rightarrow> TRPCError option" where
  "thrown (ApproveTask inp uid now (A_Returned (Inl e))) = Some e"
| "thrown (RejectTask inp uid now (R_Returned (Inl e))) = Some e"
| "thrown t = None"

text \<open>A request running alone for \<open>n\<close> steps.\<close>

fun steps :: "Env \<Rightarrow> nat \<Rightarrow> Task \<Rightarrow> World \<Rightarrow> Task \<times> World" where
  "steps env 0 t w = (t, w)"
| "steps env (Suc n) t w = (case task_step env t w of (t', w') \<Rightarrow> steps env n t' w')"

text \<open>The code of the error a caller receives, if the procedure threw.\<close>

definition error_code :: "TRPCError + 'a \<Rightarrow> TRPC_ERROR_CODE option" where
  "error_code r = (case r of Inl e \<Rightarrow> Some (code e) | Inr v \<Rightarrow> None)"

section \<open>Concrete worlds\<close>

text \<open>
  A project of \<^verbatim>\<open>alice\<close> with one failed generation, its error log and a pending
  multi-step fix; an environment whose agents answer with a low-severity analysis and a
  confident draft and whose sandbox never throws; and variations of both.
\<close>

definition demo_newId :: "nat \<Rightarrow> Id" where
  "demo_newId k = ''id-'' @ replicate k CHR ''i''"

definition demo_analysis :: ErrorAnalysis where
  "demo_analysis =
     \<lparr>category = SYNTAX, severity = LOW, diagnostic = ''missing brace'', canAutoFix = True,
      analysisConfidence = 0.9, suggestedActions = []\<rparr>"

definition demo_fixData :: FixData where
  "demo_fixData =
     \<lparr>fixType = ''multiStep'',
      commands = Some [''mkdir src'', ''npm install'', ''npm test''],
      files = Some [\<lparr>path = ''src/a.ts'', fileContent = ''export {}''\<rparr>]\<rparr>"

definition demo_draft :: FixDraft where
  "demo_draft =
     \<lparr>description = ''reinstall'', fixData = demo_fixData, reasoning = ''lockfile is stale'',
      confidence = 0.85\<rparr>"

definition demo_env :: Env where
  "demo_env =
     \<lparr>newId = demo_newId, sandbox = (\<lambda>hist c. None),
      errorAnalyzer = (\<lambda>t ctx. Parsed demo_analysis),
      fixGenerator = (\<lambda>a t ctx. Parsed (Some demo_draft))\<rparr>"

text \<open>The draft comes back with confidence 0.5.\<close>

definition cautious_env :: Env where
  "cautious_env = demo_env\<lparr>fixGenerator := (\<lambda>a t ctx. Parsed (Some (demo_draft\<lparr>confidence := 0.5\<rparr>)))\<rparr>"

text \<open>The analysis comes back with confidence 0.6.\<close>

definition unsure_env :: Env where
  "unsure_env = demo_env\<lparr>errorAnalyzer := (\<lambda>t ctx. Parsed (demo_analysis\<lparr>analysisConfidence := 0.6\<rparr>))\<rparr>"

text \<open>The error analyser cannot be reached.\<close>

definition unreachable_env :: Env where
  "unreachable_env = demo_env\<lparr>errorAnalyzer := (\<lambda>t ctx. RunThrows)\<rparr>"

text \<open>A sandbox in which \<^verbatim>\<open>npm install\<close> exits with an error.\<close>

definition failing_sandbox :: Sandbox where
  "failing_sandbox hist c =
     (if c = RunCommand ''3000-abc'' ''npm install'' then Some ''Error: exit status 1'' else None)"

definition failing_env :: Env where
  "failing_env = demo_env\<lparr>sandbox := failing_sandbox\<rparr>"

definition demo_project :: Project where
  "demo_project = \<lparr>project_id = ''p1'', userId = ''alice''\<rparr>"

definition demo_message :: Message where
  "demo_message =
     \<lparr>message_id = ''m1'', projectId = ''p1'', content = Plain ''Error occurred: boom'',
      role = ASSISTANT, msgType = ERROR\<rparr>"

definition demo_errorLog :: ErrorLog where
  "demo_errorLog =
     \<lparr>errorLog_id = ''e1'', messageId = ''m1'', log_category = SYNTAX, log_severity = MEDIUM,
      errorData = \<lparr>errorText = ''boom'', errorContext = JNull, analysis = demo_analysis\<rparr>,
      log_diagnostic = ''missing brace''\<rparr>"

definition demo_fix :: ProposedFix where
  "demo_fix =
     \<lparr>description = ''reinstall'', fixData = demo_fixData, reasoning = ''lockfile is stale'',
      confidence = 0.5, fix_id = ''f1'', errorLogId = ''e1'', status = PENDING,
      reviewedBy = None, reviewedAt = None, feedback = None\<rparr>"

definition demo_world :: World where
  "demo_world =
     \<lparr>projects = [demo_project], messages = [demo_message], fragments = [],
      errorLogs = [demo_errorLog], proposedFixes = [demo_fix], idCounter = 0,
      sandboxCalls = [], agentRuns = []\<rparr>"

text \<open>The same world before anything failed.\<close>

definition fresh_world :: World where
  "fresh_world =
     \<lparr>projects = [demo_project], messages = [], fragments = [], errorLogs = [],
      proposedFixes = [], idCounter = 0, sandboxCalls = [], agentRuns = []\<rparr>"

text \<open>The message of the failed generation has a fragment with a sandbox URL.\<close>

definition demo_fragment :: Fragment where
  "demo_fragment = \<lparr>fragment_messageId = ''m1'', sandboxUrl = Some ''3000-abc.e2b.dev''\<rparr>"

definition sandboxed_world :: World where
  "sandboxed_world = demo_world\<lparr>fragments := [demo_fragment]\<rparr>"

text \<open>The fix has been rejected already.\<close>

definition rejected_world :: World where
  "rejected_world = demo_world\<lparr>proposedFixes := [demo_fix\<lparr>status := REJECTED\<rparr>]\<rparr>"

text \<open>What \<^verbatim>\<open>findUnique\<close> returns for the fix in these worlds.\<close>

definition demo_found :: FixWithRelations where
  "demo_found =
     \<lparr>the_fix = demo_fix, the_errorLog = demo_errorLog, the_message = demo_message,
      the_project = demo_project, the_fragment = None\<rparr>"

text \<open>An approval without feedback and a rejection, both by \<^verbatim>\<open>alice\<close>, of the same fix.\<close>

definition demo_approve :: ApproveInput where
  "demo_approve = \<lparr>approve_proposedFixId = ''f1'', approve_feedback = None\<rparr>"

definition demo_reject :: RejectInput where
  "demo_reject = \<lparr>reject_proposedFixId = ''f1'', reject_feedback = ''wrong fix''\<rparr>"

definition approve_task :: Task where
  "approve_task = ApproveTask demo_approve ''alice'' 7 A_Find"

definition reject_task :: Task where
  "reject_task = RejectTask demo_reject ''alice'' 8 R_Find"

section \<open>The error handler\<close>

lemmas handle_defs = handleError_def handleError_try_def message_create_def errorLog_create_def
  proposedFix_create_def analyzeError_def generateFix_def Let_def

lemmas demo_defs = demo_newId_def demo_analysis_def demo_fixData_def demo_draft_def demo_env_def
  cautious_env_def unsure_env_def unreachable_env_def failing_sandbox_def failing_env_def
  demo_project_def demo_message_def demo_errorLog_def demo_fix_def demo_world_def fresh_world_def
  demo_fragment_def sandboxed_world_def rejected_world_def demo_found_def demo_approve_def
  demo_reject_def approve_task_def reject_task_def

text \<open>The analysis and the draft do not depend on the state of the store.\<close>

lemma analyzeError_fst: "fst (analyzeError env t ctx w) = fst (analyzeError env t ctx w')"
  by (simp add: analyzeError_def)

lemma generateFix_fst: "fst (generateFix env a t ctx w) = fst (generateFix env a t ctx w')"
  by (simp add: generateFix_def)

text \<open>The handler, branch by branch.\<close>

lemma handleError_null:
  "handleError env None ctx pid w
     = message_create env pid (Plain ''Something went wrong. Please try again.'') ASSISTANT ERROR w"
  by (simp add: handleError_def handleError_try_def)

lemma handleError_not_eligible:
  assumes "fst (analyzeError env t ctx w) = a"
    and "\<not> (canAutoFix a \<and> analysisConfidence a > 0.7)"
  shows "proposedFixes (snd (handleError env (Some t) ctx pid w)) = proposedFixes w"
    and "agentRuns (snd (handleError env (Some t) ctx pid w)) = agentRuns w @ [''error-analyzer'']"
  using assms by (auto simp: handle_defs split: Reply.splits)

lemma handleError_no_draft:
  assumes "fst (analyzeError env t ctx w) = a"
    and "fst (generateFix env a t ctx w) = None"
  shows "proposedFixes (snd (handleError env (Some t) ctx pid w)) = proposedFixes w"
  using assms by (auto simp: handle_defs split: Reply.splits)

lemma handleError_draft:
  assumes "fst (analyzeError env t ctx w) = a"
    and "canAutoFix a" and "analysisConfidence a > 0.7"
    and "fst (generateFix env a t ctx w) = Some d"
  shows "proposedFixes (snd (handleError env (Some t) ctx pid w))
           = proposedFixes w @
             [\<lparr>description = description d, fixData = fixData d, reasoning = reasoning d,
               confidence = confidence d, fix_id = newId env (Suc (Suc (idCounter w))),
               errorLogId = newId env (Suc (idCounter w)),
               status = (if severity a = LOW \<and> confidence d > 0.8 then AUTO_FIXED else PENDING),
               reviewedBy = None, reviewedAt = None, feedback = None\<rparr>]"
    and "errorLogs (snd (handleError env (Some t) ctx pid w))
           = errorLogs w @
             [\<lparr>errorLog_id = newId env (Suc (idCounter w)), messageId = newId env (idCounter w),
               log_category = category a, log_severity = severity a,
               errorData = \<lparr>errorText = t, errorContext = ctx, analysis = a\<rparr>,
               log_diagnostic = diagnostic a\<rparr>]"
    and "fst (handleError env (Some t) ctx pid w)
           = \<lparr>message_id = newId env (idCounter w), projectId = pid,
              content = Plain (''Error occurred: '' @ t), role = ASSISTANT, msgType = ERROR\<rparr>"
    and "messages (snd (handleError env (Some t) ctx pid w))
           = messages w @
             (\<lparr>message_id = newId env (idCounter w), projectId = pid,
               content = Plain (''Error occurred: '' @ t), role = ASSISTANT, msgType = ERROR\<rparr>
              # (if severity a = LOW \<and> confidence d > 0.8 then []
                 else [\<lparr>message_id = newId env (Suc (Suc (Suc (idCounter w)))), projectId = pid,
                        content = Stringified (JObj
                          [(''type'', JStr ''approval_request''),
                           (''errorLogId'', JStr (newId env (Suc (idCounter w)))),
                           (''description'', JStr (description d)),
                           (''reasoning'', JStr (reasoning d)),
                           (''confidence'', JNum (confidence d))]),
                        role = ASSISTANT, msgType = APPROVAL_REQUEST\<rparr>]))"
    and "sandboxCalls (snd (handleError env (Some t) ctx pid w)) = sandboxCalls w"
  using assms
  by (auto simp: handle_defs approval_request_def split: Reply.splits)

text \<open>
  Claim C2. When the diagnosis allows a fix to be generated and the generator returns a
  draft, the handler adds exactly one proposed fix, a copy of the draft, and its status is
  \<open>AUTO_FIXED\<close> if and only if the severity of the diagnosis is \<open>LOW\<close> and the confidence
  of the draft is greater than 0.8; otherwise it is \<open>PENDING\<close>.
\<close>

theorem created_fix_status:
  assumes "fst (analyzeError env t ctx w) = a"
    and "canAutoFix a" and "analysisConfidence a > 0.7"
    and "fst (generateFix env a t ctx w) = Some d"
  shows "\<exists>f. proposedFixes (snd (handleError env (Some t) ctx pid w)) = proposedFixes w @ [f]
           \<and> description f = description d \<and> fixData f = fixData d
           \<and> reasoning f = reasoning d \<and> confidence f = confidence d
           \<and> (status f = AUTO_FIXED \<longleftrightarrow> severity a = LOW \<and> confidence d > 0.8)
           \<and> (status f = PENDING \<longleftrightarrow> \<not> (severity a = LOW \<and> confidence d > 0.8))"
  unfolding handleError_draft(1) [OF assms] by simp

theorem created_fix_status_witness:
  "fst (analyzeError demo_env ''boom'' JNull fresh_world) = demo_analysis
   \<and> canAutoFix demo_analysis \<and> analysisConfidence demo_analysis > 0.7
   \<and> fst (generateFix demo_env demo_analysis ''boom'' JNull fresh_world) = Some demo_draft
   \<and> severity demo_analysis = LOW \<and> confidence demo_draft > 0.8
   \<and> (\<exists>f. proposedFixes (snd (handleError demo_env (Some ''boom'') JNull ''p1'' fresh_world))
              = proposedFixes fresh_world @ [f]
          \<and> status f = AUTO_FIXED)"
proof -
  have a: "fst (analyzeError demo_env ''boom'' JNull fresh_world) = demo_analysis"
    by (simp add: analyzeError_def demo_env_def)
  have c: "canAutoFix demo_analysis" and k: "analysisConfidence demo_analysis > 0.7"
    by (simp_all add: demo_analysis_def)
  have d: "fst (generateFix demo_env demo_analysis ''boom'' JNull fresh_world) = Some demo_draft"
    by (simp add: generateFix_def demo_env_def)
  have low: "severity demo_analysis = LOW" and high: "confidence demo_draft > 0.8"
    by (simp_all add: demo_analysis_def demo_draft_def)
  from created_fix_status [OF a c k d, of "''p1''"] low high
  have "\<exists>f. proposedFixes (snd (handleError demo_env (Some ''boom'') JNull ''p1'' fresh_world))
              = proposedFixes fresh_world @ [f] \<and> status f = AUTO_FIXED"
    by auto
  with a c k d low high show ?thesis by simp
qed

text \<open>
  Claim C4. When the diagnosis says the error cannot be fixed automatically, or its
  confidence is at most 0.7, the only agent run is the error analyser (the fix generator
  is not run) and no proposed fix is added.
\<close>

theorem no_fix_without_confident_diagnosis:
  assumes "fst (analyzeError env t ctx w) = a"
    and "\<not> canAutoFix a \<or> analysisConfidence a \<le> 0.7"
  shows "proposedFixes (snd (handleError env (Some t) ctx pid w)) = proposedFixes w
       \<and> agentRuns (snd (handleError env (Some t) ctx pid w)) = agentRuns w @ [''error-analyzer'']"
proof -
  have "\<not> (canAutoFix a \<and> analysisConfidence a > 0.7)"
    using assms(2) by auto
  from handleError_not_eligible [OF assms(1) this] show ?thesis by simp
qed

theorem no_fix_without_confident_diagnosis_witness:
  "canAutoFix (fst (analyzeError unsure_env ''boom'' JNull fresh_world))
   \<and> analysisConfidence (fst (analyzeError unsure_env ''boom'' JNull fresh_world)) \<le> 0.7
   \<and> proposedFixes (snd (handleError unsure_env (Some ''boom'') JNull ''p1'' fresh_world)) = []
   \<and> agentRuns (snd (handleError unsure_env (Some ''boom'') JNull ''p1'' fresh_world))
       = [''error-analyzer'']"
proof -
  let ?a = "fst (analyzeError unsure_env ''boom'' JNull fresh_world)"
  have c: "canAutoFix ?a" and k: "analysisConfidence ?a \<le> 0.7"
    by (simp_all add: analyzeError_def unsure_env_def demo_env_def demo_analysis_def)
  from k have "\<not> canAutoFix ?a \<or> analysisConfidence ?a \<le> 0.7" by simp
  from no_fix_without_confident_diagnosis [OF refl this, of "''p1''"] c k
  show ?thesis by (simp add: fresh_world_def)
qed

text \<open>
  Claim C8. When the run of the error analyser throws, or its output does not parse,
  \<^verbatim>\<open>analyzeError\<close> returns the fixed fallback analysis, and the error log the handler writes
  carries its category \<open>INFRASTRUCTURE\<close>, its severity \<open>HIGH\<close> and its diagnostic; no fix is
  proposed.
\<close>

theorem analysis_failure_falls_back:
  assumes "errorAnalyzer env t ctx = RunThrows \<or> errorAnalyzer env t ctx = ParseThrows"
  shows "fst (analyzeError env t ctx w)
           = \<lparr>category = INFRASTRUCTURE, severity = HIGH, diagnostic = ''Failed to analyze error'',
              canAutoFix = False, analysisConfidence = 0.0,
              suggestedActions = [''Manual review required'']\<rparr>
       \<and> (\<exists>l. errorLogs (snd (handleError env (Some t) ctx pid w)) = errorLogs w @ [l]
              \<and> log_category l = INFRASTRUCTURE \<and> log_severity l = HIGH
              \<and> log_diagnostic l = ''Failed to analyze error'')
       \<and> proposedFixes (snd (handleError env (Some t) ctx pid w)) = proposedFixes w"
  using assms
  by (auto simp: handle_defs fallbackAnalysis_def split: Reply.splits option.splits prod.splits if_splits)

theorem analysis_failure_falls_back_witness:
  "errorAnalyzer unreachable_env ''boom'' JNull = RunThrows
   \<and> category (fst (analyzeError unreachable_env ''boom'' JNull fresh_world)) = INFRASTRUCTURE
   \<and> severity (fst (analyzeError unreachable_env ''boom'' JNull fresh_world)) = HIGH
   \<and> \<not> canAutoFix (fst (analyzeError unreachable_env ''boom'' JNull fresh_world))
   \<and> (\<exists>l. errorLogs (snd (handleError unreachable_env (Some ''boom'') JNull ''p1'' fresh_world)) = [l]
          \<and> log_category l = INFRASTRUCTURE \<and> log_severity l = HIGH)
   \<and> proposedFixes (snd (handleError unreachable_env (Some ''boom'') JNull ''p1'' fresh_world)) = []"
proof -
  have thrown: "errorAnalyzer unreachable_env ''boom'' JNull = RunThrows"
    by (simp add: unreachable_env_def)
  then have "errorAnalyzer unreachable_env ''boom'' JNull = RunThrows
             \<or> errorAnalyzer unreachable_env ''boom'' JNull = ParseThrows" by simp
  from analysis_failure_falls_back [OF this, of fresh_world "''p1''"] thrown
  show ?thesis by (auto simp: fresh_world_def)
qed

text \<open>
  Claim C9. Whenever the handler adds a proposed fix whose status is \<open>PENDING\<close>, it has
  also written the error log the fix belongs to and, after the error message, one more
  message: of type \<open>APPROVAL_REQUEST\<close>, by the assistant, in the same project, whose content
  is the serialised object with the tag \<^verbatim>\<open>approval_request\<close>, the identifier of that error
  log, and the description, reasoning and confidence of the fix.
\<close>

theorem pending_fix_has_approval_request:
  assumes added: "proposedFixes (snd (handleError env err ctx pid w)) = proposedFixes w @ [f]"
    and pending: "status f = PENDING"
  shows "\<exists>l m. errorLogs (snd (handleError env err ctx pid w)) = errorLogs w @ [l]
           \<and> errorLogId f = errorLog_id l
           \<and> messages (snd (handleError env err ctx pid w))
               = messages w @ [fst (handleError env err ctx pid w), m]
           \<and> msgType m = APPROVAL_REQUEST \<and> role m = ASSISTANT \<and> projectId m = pid
           \<and> content m = Stringified (JObj
                 [(''type'', JStr ''approval_request''),
                  (''errorLogId'', JStr (errorLog_id l)),
                  (''description'', JStr (description f)),
                  (''reasoning'', JStr (reasoning f)),
                  (''confidence'', JNum (confidence f))])"
proof (cases err)
  case None
  have "proposedFixes (snd (handleError env err ctx pid w)) = proposedFixes w"
    unfolding None handleError_null by (simp add: message_create_def Let_def)
  with added show ?thesis by simp
next
  case (Some t)
  define a where "a = fst (analyzeError env t ctx w)"
  have a: "fst (analyzeError env t ctx w) = a" by (simp add: a_def)
  show ?thesis
  proof (cases "canAutoFix a \<and> analysisConfidence a > 0.7")
    case False
    have "proposedFixes (snd (handleError env err ctx pid w)) = proposedFixes w"
      unfolding Some using handleError_not_eligible(1) [OF a False] .
    with added show ?thesis by simp
  next
    case True
    show ?thesis
    proof (cases "fst (generateFix env a t ctx w)")
      case None
      have "proposedFixes (snd (handleError env err ctx pid w)) = proposedFixes w"
        unfolding Some using handleError_no_draft [OF a None] .
      with added show ?thesis by simp
    next
      case (Some d)
      note facts = handleError_draft [OF a conjunct1 [OF True] conjunct2 [OF True] Some, of pid]
      from added facts(1) pending
      have f: "f = \<lparr>description = description d, fixData = fixData d, reasoning = reasoning d,
               confidence = confidence d, fix_id = newId env (Suc (Suc (idCounter w))),
               errorLogId = newId env (Suc (idCounter w)),
               status = PENDING, reviewedBy = None, reviewedAt = None, feedback = None\<rparr>"
        and manual: "\<not> (severity a = LOW \<and> confidence d > 0.8)"
        unfolding \<open>err = Some t\<close> by (auto split: if_splits)
      show ?thesis
        unfolding \<open>err = Some t\<close> facts(2,3,4) using manual f by simp
    qed
  qed
qed

theorem pending_fix_has_approval_request_witness:
  "proposedFixes (snd (handleError cautious_env (Some ''boom'') JNull ''p1'' fresh_world))
     = proposedFixes fresh_world @
       [\<lparr>description = ''reinstall'', fixData = demo_fixData, reasoning = ''lockfile is stale'',
         confidence = 0.5, fix_id = ''id-ii'', errorLogId = ''id-i'', status = PENDING,
         reviewedBy = None, reviewedAt = None, feedback = None\<rparr>]
   \<and> (\<exists>l m. errorLogs (snd (handleError cautious_env (Some ''boom'') JNull ''p1'' fresh_world)) = [l]
          \<and> errorLog_id l = ''id-i''
          \<and> messages (snd (handleError cautious_env (Some ''boom'') JNull ''p1'' fresh_world))
              = [fst (handleError cautious_env (Some ''boom'') JNull ''p1'' fresh_world), m]
          \<and> msgType m = APPROVAL_REQUEST
          \<and> content m = Stringified (JObj
                [(''type'', JStr ''approval_request''),
                 (''errorLogId'', JStr ''id-i''),
                 (''description'', JStr ''reinstall''),
                 (''reasoning'', JStr ''lockfile is stale''),
                 (''confidence'', JNum 0.5)]))"
proof -
  let ?f = "\<lparr>description = ''reinstall'', fixData = demo_fixData, reasoning = ''lockfile is stale'',
         confidence = 0.5, fix_id = ''id-ii'', errorLogId = ''id-i'', status = PENDING,
         reviewedBy = None, reviewedAt = None, feedback = None\<rparr>"
  have added: "proposedFixes (snd (handleError cautious_env (Some ''boom'') JNull ''p1'' fresh_world))
     = proposedFixes fresh_world @ [?f]"
    by (simp add: handle_defs demo_defs)
  have pending: "status ?f = PENDING" by simp
  from pending_fix_has_approval_request [OF added pending] added
  show ?thesis by (auto simp: fresh_world_def)
qed

text \<open>
  Claim C3, evaluated where it fails. A low-severity analysis and a draft of confidence
  0.85, whose payload has three commands and a file: the handler stores the fix as
  \<open>AUTO_FIXED\<close> and writes the error message only, and no call has reached the sandbox.
\<close>

theorem auto_fixed_is_not_executed:
  "map status (proposedFixes (snd (handleError demo_env (Some ''boom'') JNull ''p1'' fresh_world)))
     = [AUTO_FIXED]
   \<and> map fixData (proposedFixes (snd (handleError demo_env (Some ''boom'') JNull ''p1'' fresh_world)))
     = [demo_fixData]
   \<and> commands demo_fixData = Some [''mkdir src'', ''npm install'', ''npm test'']
   \<and> map msgType (messages (snd (handleError demo_env (Some ''boom'') JNull ''p1'' fresh_world)))
     = [ERROR]
   \<and> sandboxCalls (snd (handleError demo_env (Some ''boom'') JNull ''p1'' fresh_world)) = []"
  by (simp add: handle_defs demo_defs)

section \<open>The fix executor\<close>

text \<open>A loop of sandbox calls makes a prefix of its calls, in order.\<close>

lemma each_call_extends: "\<exists>m \<le> length cs. snd (each_call sb cs hist) = hist @ take m cs"
proof (induction cs arbitrary: hist)
  case Nil
  show ?case by simp
next
  case (Cons c cs)
  show ?case
  proof (cases "sb hist c")
    case (Some e)
    have "snd (each_call sb (c # cs) hist) = hist @ take 1 (c # cs)"
      using Some by simp
    moreover have "1 \<le> length (c # cs)" by simp
    ultimately show ?thesis by blast
  next
    case None
    from Cons.IH [of "hist @ [c]"] obtain m where
      m: "m \<le> length cs" "snd (each_call sb cs (hist @ [c])) = (hist @ [c]) @ take m cs"
      by blast
    have "snd (each_call sb (c # cs) hist) = hist @ take (Suc m) (c # cs)"
      using None m by simp
    moreover have "Suc m \<le> length (c # cs)" using m(1) by simp
    ultimately show ?thesis by blast
  qed
qed

text \<open>A loop that ends without an error has made all of its calls.\<close>

lemma each_call_completed:
  "fst (each_call sb cs hist) = None \<Longrightarrow> snd (each_call sb cs hist) = hist @ cs"
  by (induction cs arbitrary: hist) (auto split: option.splits)

lemma each_call_all_ok:
  "(\<And>k. k < length cs \<Longrightarrow> sb (hist @ take k cs) (cs ! k) = None) \<Longrightarrow>
   each_call sb cs hist = (None, hist @ cs)"
proof (induction cs arbitrary: hist)
  case Nil
  show ?case by simp
next
  case (Cons c cs)
  have head: "sb hist c = None"
    using Cons.prems [of 0] by simp
  have tail: "sb ((hist @ [c]) @ take k cs) (cs ! k) = None" if "k < length cs" for k
    using Cons.prems [of "Suc k"] that by simp
  show ?case
    using head Cons.IH [of "hist @ [c]", OF tail] by simp
qed

text \<open>The first call to throw is the last one made, and its error is the loop's.\<close>

lemma each_call_first_fault:
  "n < length cs \<Longrightarrow>
   (\<And>k. k < n \<Longrightarrow> sb (hist @ take k cs) (cs ! k) = None) \<Longrightarrow>
   sb (hist @ take n cs) (cs ! n) = Some e \<Longrightarrow>
   each_call sb cs hist = (Some e, hist @ take (Suc n) cs)"
proof (induction cs arbitrary: hist n)
  case Nil
  then show ?case by simp
next
  case (Cons c cs)
  show ?case
  proof (cases n)
    case 0
    with Cons.prems(3) show ?thesis by simp
  next
    case (Suc m)
    have head: "sb hist c = None"
      using Cons.prems(2) [of 0] Suc by simp
    have m: "m < length cs"
      using Cons.prems(1) Suc by simp
    have before: "sb ((hist @ [c]) @ take k cs) (cs ! k) = None" if "k < m" for k
      using Cons.prems(2) [of "Suc k"] that Suc by simp
    have at: "sb ((hist @ [c]) @ take m cs) (cs ! m) = Some e"
      using Cons.prems(3) Suc by simp
    show ?thesis
      using head Suc Cons.IH [of m "hist @ [c]", OF m before at] by simp
  qed
qed

text \<open>
  The calls of a multi-step fix are a prefix of: reach the sandbox, run the commands as
  listed, write the files as listed.
\<close>

lemma multiStep_prefix:
  assumes "fixType fd = ''multiStep''"
    and "commands fd = Some cs" and "files fd = Some fs"
  shows "\<exists>j. snd (execute_try sb fd (Some sid) hist)
           = hist @ take j (GetSandbox sid # map (RunCommand sid) cs
                            @ map (\<lambda>f. WriteFile sid (path f) (fileContent f)) fs)"
proof (cases "sid = []")
  case True
  have "snd (execute_try sb fd (Some sid) hist) = hist @ take 0 (GetSandbox sid # map (RunCommand sid) cs
                            @ map (\<lambda>f. WriteFile sid (path f) (fileContent f)) fs)"
    using assms True by (simp add: execute_try_def)
  then show ?thesis by blast
next
  case False
  let ?h0 = "hist @ [GetSandbox sid]"
  let ?cs = "map (RunCommand sid) cs"
  let ?fs = "map (\<lambda>f. WriteFile sid (path f) (fileContent f)) fs"
  show ?thesis
  proof (cases "sb hist (GetSandbox sid)")
    case (Some e)
    have "snd (execute_try sb fd (Some sid) hist) = hist @ take 1 (GetSandbox sid # ?cs @ ?fs)"
      using assms False Some by (simp add: execute_try_def getSandbox_def)
    then show ?thesis by blast
  next
    case None
    show ?thesis
    proof -
      obtain r h1 where ec: "each_call sb ?cs ?h0 = (r, h1)"
        by (cases "each_call sb ?cs ?h0")
      show ?thesis
      proof (cases r)
        case (Some e)
        obtain n where n: "n \<le> length ?cs" "snd (each_call sb ?cs ?h0) = ?h0 @ take n ?cs"
          using each_call_extends [of ?cs sb ?h0] by blast
        have "snd (execute_try sb fd (Some sid) hist) = h1"
          using assms False None Some ec
          by (simp add: execute_try_def getSandbox_def run_commands_def)
        also have "\<dots> = hist @ take (Suc n) (GetSandbox sid # ?cs @ ?fs)"
          using n ec by simp
        finally show ?thesis by blast
      next
        case no_error: None
        have all: "h1 = ?h0 @ ?cs"
          using each_call_completed [of sb ?cs ?h0] ec no_error by simp
        obtain m where m: "m \<le> length ?fs" "snd (each_call sb ?fs (?h0 @ ?cs)) = (?h0 @ ?cs) @ take m ?fs"
          using each_call_extends [of ?fs sb "?h0 @ ?cs"] by blast
        have "snd (execute_try sb fd (Some sid) hist) = snd (each_call sb ?fs (?h0 @ ?cs))"
          using assms False None no_error all ec
          by (simp add: execute_try_def getSandbox_def run_commands_def write_files_def)
        also have "\<dots> = hist @ take (Suc (length ?cs + m)) (GetSandbox sid # ?cs @ ?fs)"
          using m by simp
        finally show ?thesis by blast
      qed
    qed
  qed
qed

text \<open>
  Claim C6. For a \<^verbatim>\<open>multiStep\<close> payload with both commands and files, the sandbox calls made
  are always a prefix of: reach the sandbox, the commands in listed order, then the file
  writes in listed order; so no file is written before every command has run. If the
  sandbox is reached and command \<open>n\<close> is the first to throw, the calls stop with that
  command (no later command, no file write) and the executor returns the failure with the
  error thrown. If no command throws, all commands are run, followed by file writes only.
  In every case the executor returns a result.
\<close>

theorem multiStep_commands_before_files:
  assumes "fixType (fixData pf) = ''multiStep''"
    and "commands (fixData pf) = Some cs" and "files (fixData pf) = Some fs"
  shows "(\<exists>j. snd (executeProposedFix sb pf (Some sid) hist)
             = hist @ take j (GetSandbox sid # map (RunCommand sid) cs
                              @ map (\<lambda>f. WriteFile sid (path f) (fileContent f)) fs))
       \<and> (sid \<noteq> [] \<and> sb hist (GetSandbox sid) = None \<longrightarrow>
           (\<forall>n e. n < length cs
              \<and> (\<forall>k<n. sb (hist @ GetSandbox sid # map (RunCommand sid) (take k cs))
                          (RunCommand sid (cs ! k)) = None)
              \<and> sb (hist @ GetSandbox sid # map (RunCommand sid) (take n cs))
                   (RunCommand sid (cs ! n)) = Some e
            \<longrightarrow> executeProposedFix sb pf (Some sid) hist
                  = (\<lparr>success = False, error = Some e\<rparr>,
                     hist @ GetSandbox sid # map (RunCommand sid) (take (Suc n) cs)))
         \<and> ((\<forall>k<length cs. sb (hist @ GetSandbox sid # map (RunCommand sid) (take k cs))
                              (RunCommand sid (cs ! k)) = None)
            \<longrightarrow> (\<exists>m \<le> length fs. snd (executeProposedFix sb pf (Some sid) hist)
                  = hist @ GetSandbox sid # map (RunCommand sid) cs
                      @ map (\<lambda>f. WriteFile sid (path f) (fileContent f)) (take m fs))))"
proof (intro conjI allI impI)
  have "snd (executeProposedFix sb pf (Some sid) hist) = snd (execute_try sb (fixData pf) (Some sid) hist)"
    by (simp add: executeProposedFix_def split: prod.splits option.splits)
  then show "\<exists>j. snd (executeProposedFix sb pf (Some sid) hist)
             = hist @ take j (GetSandbox sid # map (RunCommand sid) cs
                              @ map (\<lambda>f. WriteFile sid (path f) (fileContent f)) fs)"
    using multiStep_prefix [OF assms, of sb sid hist] by simp
next
  fix n e
  assume reached: "sid \<noteq> [] \<and> sb hist (GetSandbox sid) = None"
  assume h: "n < length cs
            \<and> (\<forall>k<n. sb (hist @ GetSandbox sid # map (RunCommand sid) (take k cs)) (RunCommand sid (cs ! k)) = None)
            \<and> sb (hist @ GetSandbox sid # map (RunCommand sid) (take n cs)) (RunCommand sid (cs ! n)) = Some e"
  let ?h0 = "hist @ [GetSandbox sid]"
  let ?cs = "map (RunCommand sid) cs"
  have n: "n < length ?cs" using h by simp
  have before: "sb (?h0 @ take k ?cs) (?cs ! k) = None" if "k < n" for k
    using h that by (simp add: take_map)
  have at: "sb (?h0 @ take n ?cs) (?cs ! n) = Some e"
    using h by (simp add: take_map)
  have "each_call sb ?cs ?h0 = (Some e, ?h0 @ take (Suc n) ?cs)"
    using each_call_first_fault [of n ?cs sb ?h0 e, OF n before at] .
  then have "run_commands sb sid cs ?h0 = (Some e, hist @ GetSandbox sid # map (RunCommand sid) (take (Suc n) cs))"
    by (simp add: run_commands_def take_map)
  then show "executeProposedFix sb pf (Some sid) hist
                = (\<lparr>success = False, error = Some e\<rparr>,
                   hist @ GetSandbox sid # map (RunCommand sid) (take (Suc n) cs))"
    using assms reached by (simp add: executeProposedFix_def execute_try_def getSandbox_def)
next
  assume reached: "sid \<noteq> [] \<and> sb hist (GetSandbox sid) = None"
  assume ok: "\<forall>k<length cs. sb (hist @ GetSandbox sid # map (RunCommand sid) (take k cs)) (RunCommand sid (cs ! k)) = None"
  let ?h0 = "hist @ [GetSandbox sid]"
  let ?cs = "map (RunCommand sid) cs"
  let ?h1 = "hist @ GetSandbox sid # ?cs"
  have "sb (?h0 @ take k ?cs) (?cs ! k) = None" if "k < length ?cs" for k
    using ok that by (simp add: take_map)
  then have "each_call sb ?cs ?h0 = (None, ?h0 @ ?cs)"
    by (rule each_call_all_ok)
  then have run: "run_commands sb sid cs ?h0 = (None, ?h1)"
    by (simp add: run_commands_def)
  obtain m where m: "m \<le> length fs"
    "snd (write_files sb sid fs ?h1) = ?h1 @ take m (map (\<lambda>f. WriteFile sid (path f) (fileContent f)) fs)"
    using each_call_extends [of "map (\<lambda>f. WriteFile sid (path f) (fileContent f)) fs" sb ?h1]
    by (auto simp: write_files_def)
  have "snd (executeProposedFix sb pf (Some sid) hist) = snd (write_files sb sid fs ?h1)"
    using assms run reached
    by (simp add: executeProposedFix_def execute_try_def getSandbox_def split: prod.splits option.splits)
  with m show "\<exists>m \<le> length fs. snd (executeProposedFix sb pf (Some sid) hist)
                = hist @ GetSandbox sid # map (RunCommand sid) cs
                    @ map (\<lambda>f. WriteFile sid (path f) (fileContent f)) (take m fs)"
    by (auto simp: take_map)
qed

theorem multiStep_commands_before_files_witness:
  "fixType (fixData demo_fix) = ''multiStep''
   \<and> commands (fixData demo_fix) = Some [''mkdir src'', ''npm install'', ''npm test'']
   \<and> files (fixData demo_fix) = Some [\<lparr>path = ''src/a.ts'', fileContent = ''export {}''\<rparr>]
   \<and> failing_sandbox [GetSandbox ''3000-abc'', RunCommand ''3000-abc'' ''mkdir src'']
        (RunCommand ''3000-abc'' ''npm install'') = Some ''Error: exit status 1''
   \<and> executeProposedFix failing_sandbox demo_fix (Some ''3000-abc'') []
       = (\<lparr>success = False, error = Some ''Error: exit status 1''\<rparr>,
          [GetSandbox ''3000-abc'', RunCommand ''3000-abc'' ''mkdir src'',
           RunCommand ''3000-abc'' ''npm install''])
   \<and> (\<exists>m \<le> 1. snd (executeProposedFix (\<lambda>hist c. None) demo_fix (Some ''3000-abc'') [])
          = [GetSandbox ''3000-abc'', RunCommand ''3000-abc'' ''mkdir src'',
             RunCommand ''3000-abc'' ''npm install'', RunCommand ''3000-abc'' ''npm test'']
            @ map (\<lambda>f. WriteFile ''3000-abc'' (path f) (fileContent f))
                (take m [\<lparr>path = ''src/a.ts'', fileContent = ''export {}''\<rparr>]))"
proof -
  have t: "fixType (fixData demo_fix) = ''multiStep''"
    and c: "commands (fixData demo_fix) = Some [''mkdir src'', ''npm install'', ''npm test'']"
    and f: "files (fixData demo_fix) = Some [\<lparr>path = ''src/a.ts'', fileContent = ''export {}''\<rparr>]"
    by (simp_all add: demo_fix_def demo_fixData_def)
  note ordered = multiStep_commands_before_files [OF t c f]
  have fault: "failing_sandbox [GetSandbox ''3000-abc'', RunCommand ''3000-abc'' ''mkdir src'']
        (RunCommand ''3000-abc'' ''npm install'') = Some ''Error: exit status 1''"
    by (simp add: failing_sandbox_def)
  have reached: "''3000-abc'' \<noteq> [] \<and> failing_sandbox [] (GetSandbox ''3000-abc'') = None"
    by (simp add: failing_sandbox_def)
  note stops = ordered [of failing_sandbox "''3000-abc''" "[]", THEN conjunct2, THEN mp,
      OF reached, THEN conjunct1, THEN spec, THEN spec, THEN mp]
  have failed: "executeProposedFix failing_sandbox demo_fix (Some ''3000-abc'') []
       = (\<lparr>success = False, error = Some ''Error: exit status 1''\<rparr>,
          [GetSandbox ''3000-abc'', RunCommand ''3000-abc'' ''mkdir src'',
           RunCommand ''3000-abc'' ''npm install''])"
    using stops [of 1 "''Error: exit status 1''"] by (simp add: failing_sandbox_def)
  have calm: "''3000-abc'' \<noteq> [] \<and> (\<lambda>hist c. None) [] (GetSandbox ''3000-abc'') = None"
    by simp
  note completes = ordered [of "\<lambda>hist c. None" "''3000-abc''" "[]", THEN conjunct2, THEN mp,
      OF calm, THEN conjunct2, THEN mp]
  have "\<exists>m \<le> 1. snd (executeProposedFix (\<lambda>hist c. None) demo_fix (Some ''3000-abc'') [])
          = [GetSandbox ''3000-abc'', RunCommand ''3000-abc'' ''mkdir src'',
             RunCommand ''3000-abc'' ''npm install'', RunCommand ''3000-abc'' ''npm test'']
            @ map (\<lambda>f. WriteFile ''3000-abc'' (path f) (fileContent f))
                (take m [\<lparr>path = ''src/a.ts'', fileContent = ''export {}''\<rparr>])"
    using completes by simp
  with t c f fault failed show ?thesis by blast
qed

section \<open>The approval procedures\<close>

text \<open>The two inputs of the concrete worlds pass the schemas of their procedures.\<close>

lemma demo_inputs_ok: "approve_input_ok demo_approve \<and> reject_input_ok demo_reject"
  by (simp add: approve_input_ok_def reject_input_ok_def demo_approve_def demo_reject_def)

lemmas approve_defs = approveFix_def approve_find_def approve_execute_def approve_update_def
  approve_message_def rejectFix_def reject_find_def reject_update_def reject_message_def
  proposedFix_findUnique_def proposedFix_update_def message_create_def
  review_def or_default_def interpolate_def Let_def

lemmas execute_defs = executeProposedFix_def execute_try_def getSandbox_def run_commands_def
  write_files_def

text \<open>What the read and its checks establish.\<close>

lemma findUnique_fix:
  "proposedFix_findUnique i w = Some pf \<Longrightarrow> find (\<lambda>f. fix_id f = i) (proposedFixes w) = Some (the_fix pf)"
  by (auto simp: proposedFix_findUnique_def split: option.splits)

lemma approve_find_Inr:
  "approve_find inp uid w = Inr pf \<Longrightarrow>
   proposedFix_findUnique (approve_proposedFixId inp) w = Some pf
   \<and> userId (the_project pf) = uid \<and> status (the_fix pf) = PENDING"
  by (auto simp: approve_find_def split: option.splits if_splits)

lemma reject_find_Inr:
  "reject_find inp uid w = Inr pf \<Longrightarrow>
   proposedFix_findUnique (reject_proposedFixId inp) w = Some pf
   \<and> userId (the_project pf) = uid \<and> status (the_fix pf) = PENDING"
  by (auto simp: reject_find_def split: option.splits if_splits)

text \<open>A fix that is no longer pending is refused by the third check, if not by the second.\<close>

lemma approve_find_processed:
  "proposedFix_findUnique (approve_proposedFixId inp) w = Some pf \<Longrightarrow> status (the_fix pf) \<noteq> PENDING \<Longrightarrow>
   approve_find inp uid w =
     Inl (if userId (the_project pf) \<noteq> uid then \<lparr>code = FORBIDDEN, message = ''Not authorized''\<rparr>
          else \<lparr>code = BAD_REQUEST, message = ''Fix already processed''\<rparr>)"
  by (simp add: approve_find_def)

lemma reject_find_processed:
  "proposedFix_findUnique (reject_proposedFixId inp) w = Some pf \<Longrightarrow> status (the_fix pf) \<noteq> PENDING \<Longrightarrow>
   reject_find inp uid w =
     Inl (if userId (the_project pf) \<noteq> uid then \<lparr>code = FORBIDDEN, message = ''Not authorized''\<rparr>
          else \<lparr>code = BAD_REQUEST, message = ''Fix already processed''\<rparr>)"
  by (simp add: reject_find_def)

text \<open>
  Claim C5, as the code has it. Approving or rejecting a fix whose status is not
  \<open>PENDING\<close>, by the owner of its project, throws \<open>BAD_REQUEST\<close> with the message
  \<^verbatim>\<open>Fix already processed\<close> and leaves the world as it was: no row is changed and no message
  is added.
\<close>

theorem processed_fix_is_refused:
  assumes "proposedFix_findUnique i w = Some pf"
    and "status (the_fix pf) \<noteq> PENDING"
    and "userId (the_project pf) = uid"
  shows "approveFix env \<lparr>approve_proposedFixId = i, approve_feedback = fb\<rparr> uid now w
           = (Inl \<lparr>code = BAD_REQUEST, message = ''Fix already processed''\<rparr>, w)
       \<and> rejectFix env \<lparr>reject_proposedFixId = i, reject_feedback = why\<rparr> uid later w
           = (Inl \<lparr>code = BAD_REQUEST, message = ''Fix already processed''\<rparr>, w)"
  using assms
  by (simp add: approveFix_def rejectFix_def approve_find_processed reject_find_processed)

theorem processed_fix_is_refused_witness:
  "proposedFix_findUnique ''f1'' rejected_world = Some (demo_found\<lparr>the_fix := demo_fix\<lparr>status := REJECTED\<rparr>\<rparr>)
   \<and> status (the_fix (demo_found\<lparr>the_fix := demo_fix\<lparr>status := REJECTED\<rparr>\<rparr>)) \<noteq> PENDING
   \<and> userId (the_project (demo_found\<lparr>the_fix := demo_fix\<lparr>status := REJECTED\<rparr>\<rparr>)) = ''alice''
   \<and> approveFix demo_env demo_approve ''alice'' 7 rejected_world
       = (Inl \<lparr>code = BAD_REQUEST, message = ''Fix already processed''\<rparr>, rejected_world)
   \<and> rejectFix demo_env demo_reject ''alice'' 8 rejected_world
       = (Inl \<lparr>code = BAD_REQUEST, message = ''Fix already processed''\<rparr>, rejected_world)"
proof -
  let ?pf = "demo_found\<lparr>the_fix := demo_fix\<lparr>status := REJECTED\<rparr>\<rparr>"
  have found: "proposedFix_findUnique ''f1'' rejected_world = Some ?pf"
    by (simp add: proposedFix_findUnique_def demo_defs)
  have processed: "status (the_fix ?pf) \<noteq> PENDING"
    by simp
  have owner: "userId (the_project ?pf) = ''alice''"
    by (simp add: demo_found_def demo_project_def)
  from processed_fix_is_refused [OF found processed owner, of demo_env None 7 "''wrong fix''" 8]
  have "approveFix demo_env demo_approve ''alice'' 7 rejected_world
       = (Inl \<lparr>code = BAD_REQUEST, message = ''Fix already processed''\<rparr>, rejected_world)
   \<and> rejectFix demo_env demo_reject ''alice'' 8 rejected_world
       = (Inl \<lparr>code = BAD_REQUEST, message = ''Fix already processed''\<rparr>, rejected_world)"
    by (simp add: demo_approve_def demo_reject_def)
  with found processed owner show ?thesis by blast
qed

text \<open>
  Claim C5 as stated fails on the error code: approving the rejected fix throws
  \<open>BAD_REQUEST\<close>, not \<open>CONFLICT\<close>.
\<close>

theorem processed_fix_error_code:
  "map status (proposedFixes rejected_world) = [REJECTED]
   \<and> error_code (fst (approveFix demo_env demo_approve ''alice'' 7 rejected_world)) = Some BAD_REQUEST
   \<and> error_code (fst (approveFix demo_env demo_approve ''alice'' 7 rejected_world)) \<noteq> Some CONFLICT
   \<and> error_code (fst (rejectFix demo_env demo_reject ''alice'' 8 rejected_world)) = Some BAD_REQUEST
   \<and> error_code (fst (rejectFix demo_env demo_reject ''alice'' 8 rejected_world)) \<noteq> Some CONFLICT"
  by (simp add: error_code_def approve_defs demo_defs)

text \<open>The state of the store after a review has been written.\<close>

lemma find_map_same:
  "(\<And>x. P (g x) = P x) \<Longrightarrow> find P (map g xs) = map_option g (find P xs)"
  by (induction xs) auto

lemma find_snoc_Some:
  "find P xs = Some x \<Longrightarrow> find P (xs @ ys) = Some x"
  by (induction xs) (auto split: if_splits)

lemma update_found:
  assumes "find (\<lambda>f. fix_id f = i) (proposedFixes w) = Some f"
  shows "proposedFix_update i (review st uid now fb) w
          = (Inr (review st uid now fb f),
             w\<lparr>proposedFixes := map (\<lambda>f. if fix_id f = i then review st uid now fb f else f) (proposedFixes w)\<rparr>)"
  using assms by (simp add: proposedFix_update_def)

lemma find_after_review:
  assumes "find (\<lambda>f. fix_id f = i) fs = Some f"
  shows "find (\<lambda>f. fix_id f = i) (map (\<lambda>f. if fix_id f = i then review st uid now fb f else f) fs)
          = Some (review st uid now fb f)"
proof -
  have eq: "fix_id (if fix_id x = i then review st uid now fb x else x) = i \<longleftrightarrow> fix_id x = i" for x
    by (simp add: review_def)
  have "find (\<lambda>f. fix_id f = i) (map (\<lambda>f. if fix_id f = i then review st uid now fb f else f) fs)
         = map_option (\<lambda>f. if fix_id f = i then review st uid now fb f else f) (find (\<lambda>f. fix_id f = i) fs)"
    by (rule find_map_same) (rule eq)
  moreover have "fix_id f = i"
    using assms by (auto simp: find_Some_iff)
  ultimately show ?thesis using assms by simp
qed


lemma findUnique_after_review:
  assumes found: "proposedFix_findUnique i w = Some pf"
    and fixes': "proposedFixes w' = map (\<lambda>f. if fix_id f = i then review st uid now fb f else f) (proposedFixes w)"
    and logs: "errorLogs w' = errorLogs w"
    and projs: "projects w' = projects w"
    and frags: "fragments w' = fragments w"
    and msgs: "messages w' = messages w @ ms"
  shows "proposedFix_findUnique i w' = Some (pf\<lparr>the_fix := review st uid now fb (the_fix pf)\<rparr>)"
proof -
  from found obtain f l m p where
    f: "find (\<lambda>f. fix_id f = i) (proposedFixes w) = Some f"
    and l: "find (\<lambda>l. errorLog_id l = errorLogId f) (errorLogs w) = Some l"
    and m: "find (\<lambda>m. message_id m = messageId l) (messages w) = Some m"
    and p: "find (\<lambda>p. project_id p = projectId m) (projects w) = Some p"
    and pf: "pf = \<lparr>the_fix = f, the_errorLog = l, the_message = m, the_project = p,
                   the_fragment = find (\<lambda>g. fragment_messageId g = message_id m) (fragments w)\<rparr>"
    by (auto simp: proposedFix_findUnique_def split: option.splits)
  have f': "find (\<lambda>f. fix_id f = i) (proposedFixes w') = Some (review st uid now fb f)"
    using f fixes' by (simp add: find_after_review)
  have same_log: "errorLogId (review st uid now fb f) = errorLogId f"
    by (simp add: review_def)
  have m': "find (\<lambda>m. message_id m = messageId l) (messages w') = Some m"
    using m msgs by (simp add: find_snoc_Some)
  show ?thesis
    using f' l m' p pf same_log logs projs frags
    by (simp add: proposedFix_findUnique_def)
qed

lemma approve_execute_frame:
  assumes "approve_execute env pf w = (res, w')"
  shows "projects w' = projects w" and "messages w' = messages w"
    and "fragments w' = fragments w" and "errorLogs w' = errorLogs w"
    and "proposedFixes w' = proposedFixes w" and "idCounter w' = idCounter w"
    and "agentRuns w' = agentRuns w"
  using assms
  by (auto simp: approve_execute_def split: option.splits if_splits prod.splits)

lemma approveFix_decided:
  assumes run: "approveFix env inp uid now w = (Inr r, w')"
    and decided: "status (response_proposedFix r) \<noteq> PENDING"
  shows "\<exists>pf'. proposedFix_findUnique (approve_proposedFixId inp) w' = Some pf'
           \<and> status (the_fix pf') \<noteq> PENDING \<and> userId (the_project pf') = uid"
proof -
  from run obtain pf where found: "approve_find inp uid w = Inr pf"
    by (auto simp: approveFix_def split: sum.splits)
  obtain res wa where exec: "approve_execute env pf w = (res, wa)"
    by (cases "approve_execute env pf w")
  note facts = approve_find_Inr [OF found]
  note frame = approve_execute_frame [OF exec]
  let ?i = "approve_proposedFixId inp"
  let ?st = "if success res then APPROVED else PENDING"
  let ?fb = "or_default (approve_feedback inp)
               (''Fix '' @ (if success res then ''applied successfully'' else ''failed to apply''))"
  let ?wb = "wa\<lparr>proposedFixes := map (\<lambda>f. if fix_id f = ?i then review ?st uid now ?fb f else f) (proposedFixes wa)\<rparr>"
  have "find (\<lambda>f. fix_id f = ?i) (proposedFixes wa) = Some (the_fix pf)"
    using facts findUnique_fix frame(5) by simp
  then have upd: "approve_update inp uid now res wa = (Inr (review ?st uid now ?fb (the_fix pf)), ?wb)"
    unfolding approve_update_def by (rule update_found)
  have r: "response_proposedFix r = review ?st uid now ?fb (the_fix pf)"
    and w': "w' = snd (approve_message env pf res ?wb)"
    using run found exec upd by (auto simp: approveFix_def)
  have "proposedFix_findUnique ?i w' = Some (pf\<lparr>the_fix := review ?st uid now ?fb (the_fix pf)\<rparr>)"
  proof (rule findUnique_after_review)
    show "proposedFix_findUnique ?i w = Some pf" using facts by simp
    show "proposedFixes w' = map (\<lambda>f. if fix_id f = ?i then review ?st uid now ?fb f else f) (proposedFixes w)"
      unfolding w' using frame(5) by (simp add: approve_message_def message_create_def Let_def)
    show "errorLogs w' = errorLogs w"
      unfolding w' using frame(4) by (simp add: approve_message_def message_create_def Let_def)
    show "projects w' = projects w"
      unfolding w' using frame(1) by (simp add: approve_message_def message_create_def Let_def)
    show "fragments w' = fragments w"
      unfolding w' using frame(3) by (simp add: approve_message_def message_create_def Let_def)
    show "messages w' = messages w @ [fst (approve_message env pf res ?wb)]"
      unfolding w' using frame(2) by (simp add: approve_message_def message_create_def Let_def)
  qed
  moreover have "status (review ?st uid now ?fb (the_fix pf)) \<noteq> PENDING"
    using decided r by simp
  ultimately show ?thesis
    using facts by simp
qed

lemma rejectFix_decided:
  assumes run: "rejectFix env inp uid now w = (Inr f, w')"
  shows "\<exists>pf'. proposedFix_findUnique (reject_proposedFixId inp) w' = Some pf'
           \<and> status (the_fix pf') \<noteq> PENDING \<and> userId (the_project pf') = uid"
proof -
  from run obtain pf where found: "reject_find inp uid w = Inr pf"
    by (auto simp: rejectFix_def split: sum.splits)
  note facts = reject_find_Inr [OF found]
  let ?i = "reject_proposedFixId inp"
  let ?wb = "w\<lparr>proposedFixes := map (\<lambda>f. if fix_id f = ?i then review REJECTED uid now (reject_feedback inp) f else f) (proposedFixes w)\<rparr>"
  have "find (\<lambda>f. fix_id f = ?i) (proposedFixes w) = Some (the_fix pf)"
    using facts findUnique_fix by simp
  then have upd: "reject_update inp uid now w = (Inr (review REJECTED uid now (reject_feedback inp) (the_fix pf)), ?wb)"
    unfolding reject_update_def by (rule update_found)
  have w': "w' = snd (reject_message env inp pf ?wb)"
    using run found upd by (auto simp: rejectFix_def)
  have "proposedFix_findUnique ?i w' = Some (pf\<lparr>the_fix := review REJECTED uid now (reject_feedback inp) (the_fix pf)\<rparr>)"
  proof (rule findUnique_after_review)
    show "proposedFix_findUnique ?i w = Some pf" using facts by simp
    show "proposedFixes w' = map (\<lambda>f. if fix_id f = ?i then review REJECTED uid now (reject_feedback inp) f else f) (proposedFixes w)"
      unfolding w' by (simp add: reject_message_def message_create_def Let_def)
    show "errorLogs w' = errorLogs w"
      unfolding w' by (simp add: reject_message_def message_create_def Let_def)
    show "projects w' = projects w"
      unfolding w' by (simp add: reject_message_def message_create_def Let_def)
    show "fragments w' = fragments w"
      unfolding w' by (simp add: reject_message_def message_create_def Let_def)
    show "messages w' = messages w @ [fst (reject_message env inp pf ?wb)]"
      unfolding w' by (simp add: reject_message_def message_create_def Let_def)
  qed
  moreover have "status (review REJECTED uid now (reject_feedback inp) (the_fix pf)) \<noteq> PENDING"
    by (simp add: review_def)
  ultimately show ?thesis
    using facts by simp
qed

text \<open>
  Claim C7. When the fragment of the fix's message has a sandbox URL, so that the
  approval executes the fix, and the execution fails: the response reports the failure;
  the row of the fix is written with status \<open>PENDING\<close>, the caller as reviewer, the time of
  the call, and the caller's feedback or, when there is none, \<^verbatim>\<open>Fix failed to apply\<close>; a
  result message describing the failure, with the error, is appended; nothing else
  changes but the history of sandbox calls. The fix can be approved again: the read and
  the checks of a later approval by the same caller pass.
\<close>

theorem failed_execution_stays_pending:
  assumes "approve_find inp uid w = Inr pf"
    and "the_fragment pf = Some fr" and "sandboxUrl fr = Some url" and "url \<noteq> []"
    and "executeProposedFix (sandbox env) (the_fix pf) (Some (takeWhile (\<lambda>c. c \<noteq> CHR ''.'') url))
           (sandboxCalls w) = (res, hist)"
    and "\<not> success res"
  shows "approveFix env inp uid now w =
           (Inr \<lparr>response_success = False,
                 response_proposedFix =
                   (the_fix pf)\<lparr>status := PENDING, reviewedBy := Some uid, reviewedAt := Some now,
                     feedback := Some (or_default (approve_feedback inp) ''Fix failed to apply'')\<rparr>,
                 executionError = error res\<rparr>,
            w\<lparr>sandboxCalls := hist,
              proposedFixes :=
                map (\<lambda>f. if fix_id f = approve_proposedFixId inp
                          then f\<lparr>status := PENDING, reviewedBy := Some uid, reviewedAt := Some now,
                                 feedback := Some (or_default (approve_feedback inp) ''Fix failed to apply'')\<rparr>
                          else f) (proposedFixes w),
              messages := messages w @
                [\<lparr>message_id = newId env (idCounter w), projectId = projectId (the_message pf),
                  content = Plain (cross_mark @ '' Fix failed: '' @ description (the_fix pf)
                                     @ ''. Error: '' @ interpolate (error res)),
                  role = ASSISTANT, msgType = RESULT\<rparr>],
              idCounter := Suc (idCounter w)\<rparr>)
       \<and> or_default None ''Fix failed to apply'' = ''Fix failed to apply''
       \<and> approve_find inp uid (snd (approveFix env inp uid now w))
           = Inr (pf\<lparr>the_fix :=
                   (the_fix pf)\<lparr>status := PENDING, reviewedBy := Some uid, reviewedAt := Some now,
                     feedback := Some (or_default (approve_feedback inp) ''Fix failed to apply'')\<rparr>\<rparr>)"
proof -
  note facts = approve_find_Inr [OF assms(1)]
  have exec: "approve_execute env pf w = (res, w\<lparr>sandboxCalls := hist\<rparr>)"
    using assms(2-5) by (simp add: approve_execute_def)
  have "find (\<lambda>f. fix_id f = approve_proposedFixId inp) (proposedFixes (w\<lparr>sandboxCalls := hist\<rparr>))
          = Some (the_fix pf)"
    using facts findUnique_fix by simp
  then have upd: "approve_update inp uid now res (w\<lparr>sandboxCalls := hist\<rparr>)
      = (Inr (review PENDING uid now (or_default (approve_feedback inp) ''Fix failed to apply'') (the_fix pf)),
         w\<lparr>sandboxCalls := hist,
           proposedFixes := map (\<lambda>f. if fix_id f = approve_proposedFixId inp
               then review PENDING uid now (or_default (approve_feedback inp) ''Fix failed to apply'') f
               else f) (proposedFixes w)\<rparr>)"
    using assms(6) by (simp add: approve_update_def proposedFix_update_def)
  have main: "approveFix env inp uid now w =
           (Inr \<lparr>response_success = False,
                 response_proposedFix =
                   (the_fix pf)\<lparr>status := PENDING, reviewedBy := Some uid, reviewedAt := Some now,
                     feedback := Some (or_default (approve_feedback inp) ''Fix failed to apply'')\<rparr>,
                 executionError = error res\<rparr>,
            w\<lparr>sandboxCalls := hist,
              proposedFixes :=
                map (\<lambda>f. if fix_id f = approve_proposedFixId inp
                          then f\<lparr>status := PENDING, reviewedBy := Some uid, reviewedAt := Some now,
                                 feedback := Some (or_default (approve_feedback inp) ''Fix failed to apply'')\<rparr>
                          else f) (proposedFixes w),
              messages := messages w @
                [\<lparr>message_id = newId env (idCounter w), projectId = projectId (the_message pf),
                  content = Plain (cross_mark @ '' Fix failed: '' @ description (the_fix pf)
                                     @ ''. Error: '' @ interpolate (error res)),
                  role = ASSISTANT, msgType = RESULT\<rparr>],
              idCounter := Suc (idCounter w)\<rparr>)"
    using assms(1,6) exec upd
    by (simp add: approveFix_def approve_message_def message_create_def review_def Let_def)
  have "proposedFix_findUnique (approve_proposedFixId inp) (snd (approveFix env inp uid now w))
          = Some (pf\<lparr>the_fix := review PENDING uid now
                     (or_default (approve_feedback inp) ''Fix failed to apply'') (the_fix pf)\<rparr>)"
    by (rule findUnique_after_review [where w = w]) (simp_all add: main facts review_def)
  then have again: "approve_find inp uid (snd (approveFix env inp uid now w))
           = Inr (pf\<lparr>the_fix :=
                   (the_fix pf)\<lparr>status := PENDING, reviewedBy := Some uid, reviewedAt := Some now,
                     feedback := Some (or_default (approve_feedback inp) ''Fix failed to apply'')\<rparr>\<rparr>)"
    using facts by (simp add: approve_find_def review_def)
  from main again show ?thesis
    by (simp add: or_default_def)
qed

theorem failed_execution_stays_pending_witness:
  "approve_find demo_approve ''alice'' sandboxed_world = Inr (demo_found\<lparr>the_fragment := Some demo_fragment\<rparr>)
   \<and> sandboxUrl demo_fragment = Some ''3000-abc.e2b.dev''
   \<and> executeProposedFix (sandbox failing_env) demo_fix (Some ''3000-abc'') []
       = (\<lparr>success = False, error = Some ''Error: exit status 1''\<rparr>,
          [GetSandbox ''3000-abc'', RunCommand ''3000-abc'' ''mkdir src'',
           RunCommand ''3000-abc'' ''npm install''])
   \<and> fst (approveFix failing_env demo_approve ''alice'' 7 sandboxed_world)
       = Inr \<lparr>response_success = False,
              response_proposedFix =
                demo_fix\<lparr>status := PENDING, reviewedBy := Some ''alice'', reviewedAt := Some 7,
                  feedback := Some ''Fix failed to apply''\<rparr>,
              executionError = Some ''Error: exit status 1''\<rparr>
   \<and> map status (proposedFixes (snd (approveFix failing_env demo_approve ''alice'' 7 sandboxed_world)))
       = [PENDING]
   \<and> map content (messages (snd (approveFix failing_env demo_approve ''alice'' 7 sandboxed_world)))
       = [Plain ''Error occurred: boom'',
          Plain (cross_mark @ '' Fix failed: reinstall. Error: Error: exit status 1'')]"
proof -
  let ?pf = "demo_found\<lparr>the_fragment := Some demo_fragment\<rparr>"
  have found: "approve_find demo_approve ''alice'' sandboxed_world = Inr ?pf"
    by (simp add: approve_find_def proposedFix_findUnique_def demo_defs)
  have fragment: "the_fragment ?pf = Some demo_fragment"
    by simp
  have url: "sandboxUrl demo_fragment = Some ''3000-abc.e2b.dev''"
    and nonempty: "''3000-abc.e2b.dev'' \<noteq> []"
    by (simp_all add: demo_fragment_def)
  have exec: "executeProposedFix (sandbox failing_env) (the_fix ?pf)
                (Some (takeWhile (\<lambda>c. c \<noteq> CHR ''.'') ''3000-abc.e2b.dev''))
                (sandboxCalls sandboxed_world)
       = (\<lparr>success = False, error = Some ''Error: exit status 1''\<rparr>,
          [GetSandbox ''3000-abc'', RunCommand ''3000-abc'' ''mkdir src'',
           RunCommand ''3000-abc'' ''npm install''])"
    by (simp add: execute_defs demo_defs)
  have failed: "\<not> success \<lparr>success = False, error = Some ''Error: exit status 1''\<rparr>"
    by simp
  from failed_execution_stays_pending [OF found fragment url nonempty exec failed, of 7]
  have "fst (approveFix failing_env demo_approve ''alice'' 7 sandboxed_world)
       = Inr \<lparr>response_success = False,
              response_proposedFix =
                demo_fix\<lparr>status := PENDING, reviewedBy := Some ''alice'', reviewedAt := Some 7,
                  feedback := Some ''Fix failed to apply''\<rparr>,
              executionError = Some ''Error: exit status 1''\<rparr>
   \<and> map status (proposedFixes (snd (approveFix failing_env demo_approve ''alice'' 7 sandboxed_world)))
       = [PENDING]
   \<and> map content (messages (snd (approveFix failing_env demo_approve ''alice'' 7 sandboxed_world)))
       = [Plain ''Error occurred: boom'',
          Plain (cross_mark @ '' Fix failed: reinstall. Error: Error: exit status 1'')]"
    by (simp add: demo_defs or_default_def interpolate_def)
  moreover have "executeProposedFix (sandbox failing_env) demo_fix (Some ''3000-abc'') []
       = (\<lparr>success = False, error = Some ''Error: exit status 1''\<rparr>,
          [GetSandbox ''3000-abc'', RunCommand ''3000-abc'' ''mkdir src'',
           RunCommand ''3000-abc'' ''npm install''])"
    using exec by (simp add: demo_defs)
  ultimately show ?thesis
    using found url by blast
qed

text \<open>
  Claim C10. When the message of the fix has no fragment, or its fragment has no sandbox
  URL (none, or the empty string), the approval makes no sandbox call, reports success,
  writes the row of the fix with status \<open>APPROVED\<close> and, when the caller gave no feedback,
  the feedback \<^verbatim>\<open>Fix applied successfully\<close>, and appends the result message of a
  successful fix.
\<close>

theorem missing_sandbox_counts_as_success:
  assumes "approve_find inp uid w = Inr pf"
    and "the_fragment pf = None
         \<or> (\<exists>fr. the_fragment pf = Some fr \<and> (sandboxUrl fr = None \<or> sandboxUrl fr = Some []))"
  shows "approveFix env inp uid now w =
           (Inr \<lparr>response_success = True,
                 response_proposedFix =
                   (the_fix pf)\<lparr>status := APPROVED, reviewedBy := Some uid, reviewedAt := Some now,
                     feedback := Some (or_default (approve_feedback inp) ''Fix applied successfully'')\<rparr>,
                 executionError = None\<rparr>,
            w\<lparr>proposedFixes :=
                map (\<lambda>f. if fix_id f = approve_proposedFixId inp
                          then f\<lparr>status := APPROVED, reviewedBy := Some uid, reviewedAt := Some now,
                                 feedback := Some (or_default (approve_feedback inp) ''Fix applied successfully'')\<rparr>
                          else f) (proposedFixes w),
              messages := messages w @
                [\<lparr>message_id = newId env (idCounter w), projectId = projectId (the_message pf),
                  content = Plain (check_mark @ '' Fix applied: '' @ description (the_fix pf)),
                  role = ASSISTANT, msgType = RESULT\<rparr>],
              idCounter := Suc (idCounter w)\<rparr>)
       \<and> sandboxCalls (snd (approveFix env inp uid now w)) = sandboxCalls w
       \<and> or_default None ''Fix applied successfully'' = ''Fix applied successfully''"
proof -
  note facts = approve_find_Inr [OF assms(1)]
  have exec: "approve_execute env pf w = (\<lparr>success = True, error = None\<rparr>, w)"
    using assms(2) by (auto simp: approve_execute_def)
  have "find (\<lambda>f. fix_id f = approve_proposedFixId inp) (proposedFixes w) = Some (the_fix pf)"
    using facts findUnique_fix by simp
  then have upd: "approve_update inp uid now \<lparr>success = True, error = None\<rparr> w
      = (Inr (review APPROVED uid now (or_default (approve_feedback inp) ''Fix applied successfully'') (the_fix pf)),
         w\<lparr>proposedFixes := map (\<lambda>f. if fix_id f = approve_proposedFixId inp
               then review APPROVED uid now (or_default (approve_feedback inp) ''Fix applied successfully'') f
               else f) (proposedFixes w)\<rparr>)"
    by (simp add: approve_update_def proposedFix_update_def)
  show ?thesis
    using assms(1) exec upd
    by (simp add: approveFix_def approve_message_def message_create_def review_def or_default_def Let_def)
qed

theorem missing_sandbox_counts_as_success_witness:
  "approve_find demo_approve ''alice'' demo_world = Inr demo_found
   \<and> the_fragment demo_found = None
   \<and> fst (approveFix demo_env demo_approve ''alice'' 7 demo_world)
       = Inr \<lparr>response_success = True,
              response_proposedFix =
                demo_fix\<lparr>status := APPROVED, reviewedBy := Some ''alice'', reviewedAt := Some 7,
                  feedback := Some ''Fix applied successfully''\<rparr>,
              executionError = None\<rparr>
   \<and> map status (proposedFixes (snd (approveFix demo_env demo_approve ''alice'' 7 demo_world)))
       = [APPROVED]
   \<and> map content (messages (snd (approveFix demo_env demo_approve ''alice'' 7 demo_world)))
       = [Plain ''Error occurred: boom'', Plain (check_mark @ '' Fix applied: reinstall'')]
   \<and> sandboxCalls (snd (approveFix demo_env demo_approve ''alice'' 7 demo_world)) = []"
proof -
  have found: "approve_find demo_approve ''alice'' demo_world = Inr demo_found"
    by (simp add: approve_find_def proposedFix_findUnique_def demo_defs)
  have none: "the_fragment demo_found = None"
    by (simp add: demo_found_def)
  then have missing: "the_fragment demo_found = None
         \<or> (\<exists>fr. the_fragment demo_found = Some fr \<and> (sandboxUrl fr = None \<or> sandboxUrl fr = Some []))"
    by simp
  from missing_sandbox_counts_as_success [OF found missing, of demo_env 7]
  have "fst (approveFix demo_env demo_approve ''alice'' 7 demo_world)
       = Inr \<lparr>response_success = True,
              response_proposedFix =
                demo_fix\<lparr>status := APPROVED, reviewedBy := Some ''alice'', reviewedAt := Some 7,
                  feedback := Some ''Fix applied successfully''\<rparr>,
              executionError = None\<rparr>
   \<and> map status (proposedFixes (snd (approveFix demo_env demo_approve ''alice'' 7 demo_world)))
       = [APPROVED]
   \<and> map content (messages (snd (approveFix demo_env demo_approve ''alice'' 7 demo_world)))
       = [Plain ''Error occurred: boom'', Plain (check_mark @ '' Fix applied: reinstall'')]
   \<and> sandboxCalls (snd (approveFix demo_env demo_approve ''alice'' 7 demo_world)) = []"
    by (simp add: demo_defs or_default_def)
  with found none show ?thesis by blast
qed

section \<open>Requests one after the other, and requests that overlap\<close>

text \<open>Four steps run a request, alone, from its start to its return: they are the handler.\<close>

lemma steps_approve:
  "steps env (Suc (Suc (Suc (Suc 0)))) (ApproveTask inp uid now A_Find) w
     = (ApproveTask inp uid now (A_Returned (fst (approveFix env inp uid now w))),
        snd (approveFix env inp uid now w))"
  by (simp add: approveFix_def split: sum.splits prod.splits)

lemma steps_reject:
  "steps env (Suc (Suc (Suc (Suc 0)))) (RejectTask inp uid now R_Find) w
     = (RejectTask inp uid now (R_Returned (fst (rejectFix env inp uid now w))),
        snd (rejectFix env inp uid now w))"
  by (simp add: rejectFix_def split: sum.splits prod.splits)

lemma run_first:
  "run_schedule env [0, 0, 0, 0] [t1, t2] w
     = ([fst (steps env (Suc (Suc (Suc (Suc 0)))) t1 w), t2], snd (steps env (Suc (Suc (Suc (Suc 0)))) t1 w))"
  by (simp split: prod.splits)

lemma run_one_after_the_other:
  "run_schedule env [0, 0, 0, 0, 1, 1, 1, 1] [t1, t2] w
     = ([fst (steps env (Suc (Suc (Suc (Suc 0)))) t1 w),
         fst (steps env (Suc (Suc (Suc (Suc 0)))) t2 (snd (steps env (Suc (Suc (Suc (Suc 0)))) t1 w)))],
        snd (steps env (Suc (Suc (Suc (Suc 0)))) t2 (snd (steps env (Suc (Suc (Suc (Suc 0)))) t1 w))))"
  by (simp split: prod.splits)


lemma decided_is_visible:
  assumes "starting t1"
    and "steps env (Suc (Suc (Suc (Suc 0)))) t1 w = (t1', w1)"
    and "returned_fix t1' = Some f" and "status f \<noteq> PENDING"
  shows "\<exists>pf'. proposedFix_findUnique (target t1) w1 = Some pf'
           \<and> status (the_fix pf') \<noteq> PENDING \<and> userId (the_project pf') = caller t1"
proof (cases t1)
  case (ApproveTask inp uid now pc)
  with assms(1) have pc: "pc = A_Find" by simp
  from assms(2) have t1': "t1' = ApproveTask inp uid now (A_Returned (fst (approveFix env inp uid now w)))"
    and w1: "w1 = snd (approveFix env inp uid now w)"
    unfolding ApproveTask pc steps_approve by simp_all
  from assms(3) t1' obtain r where r: "fst (approveFix env inp uid now w) = Inr r" "f = response_proposedFix r"
    by (cases "fst (approveFix env inp uid now w)") auto
  have "approveFix env inp uid now w = (Inr r, w1)"
    using r(1) w1 by (simp add: prod_eq_iff)
  from approveFix_decided [OF this] assms(4) r(2) show ?thesis
    using ApproveTask by simp
next
  case (RejectTask inp uid now pc)
  with assms(1) have pc: "pc = R_Find" by simp
  from assms(2) have t1': "t1' = RejectTask inp uid now (R_Returned (fst (rejectFix env inp uid now w)))"
    and w1: "w1 = snd (rejectFix env inp uid now w)"
    unfolding RejectTask pc steps_reject by simp_all
  from assms(3) t1' obtain r where r: "fst (rejectFix env inp uid now w) = Inr r"
    by (cases "fst (rejectFix env inp uid now w)") auto
  have "rejectFix env inp uid now w = (Inr r, w1)"
    using r(1) w1 by (simp add: prod_eq_iff)
  from rejectFix_decided [OF this] show ?thesis
    using RejectTask by simp
qed

lemma processed_is_refused:
  assumes "starting t2"
    and "proposedFix_findUnique (target t2) w1 = Some pf"
    and "status (the_fix pf) \<noteq> PENDING" and "userId (the_project pf) = caller t2"
  shows "thrown (fst (steps env (Suc (Suc (Suc (Suc 0)))) t2 w1))
           = Some \<lparr>code = BAD_REQUEST, message = ''Fix already processed''\<rparr>
       \<and> returned_fix (fst (steps env (Suc (Suc (Suc (Suc 0)))) t2 w1)) = None
       \<and> snd (steps env (Suc (Suc (Suc (Suc 0)))) t2 w1) = w1"
proof (cases t2)
  case (ApproveTask inp uid now pc)
  with assms(1) have pc: "pc = A_Find" by simp
  have "approve_find inp uid w1 = Inl \<lparr>code = BAD_REQUEST, message = ''Fix already processed''\<rparr>"
    using assms(2-4) ApproveTask by (simp add: approve_find_processed)
  then have "approveFix env inp uid now w1 = (Inl \<lparr>code = BAD_REQUEST, message = ''Fix already processed''\<rparr>, w1)"
    by (simp add: approveFix_def)
  then show ?thesis
    unfolding ApproveTask pc steps_approve by simp
next
  case (RejectTask inp uid now pc)
  with assms(1) have pc: "pc = R_Find" by simp
  have "reject_find inp uid w1 = Inl \<lparr>code = BAD_REQUEST, message = ''Fix already processed''\<rparr>"
    using assms(2-4) RejectTask by (simp add: reject_find_processed)
  then have "rejectFix env inp uid now w1 = (Inl \<lparr>code = BAD_REQUEST, message = ''Fix already processed''\<rparr>, w1)"
    by (simp add: rejectFix_def)
  then show ?thesis
    unfolding RejectTask pc steps_reject by simp
qed


text \<open>
  Claim C1, as the code has it. The check of the status is a read, and the update that
  follows it is keyed by the identifier alone. When two approve or reject calls on the
  same fix by the same caller run one after the other, and the first returns a row that
  is no longer \<open>PENDING\<close>, the second throws \<open>BAD_REQUEST\<close> with the message
  \<^verbatim>\<open>Fix already processed\<close>, returns no row and leaves the world as the first call left it.
\<close>

theorem second_call_after_decision_is_refused:
  assumes "starting t1" and "starting t2"
    and "target t2 = target t1" and "caller t2 = caller t1"
    and "returned_fix (fst (run_schedule env [0, 0, 0, 0, 1, 1, 1, 1] [t1, t2] w) ! 0) = Some f"
    and "status f \<noteq> PENDING"
  shows "thrown (fst (run_schedule env [0, 0, 0, 0, 1, 1, 1, 1] [t1, t2] w) ! 1)
           = Some \<lparr>code = BAD_REQUEST, message = ''Fix already processed''\<rparr>
       \<and> returned_fix (fst (run_schedule env [0, 0, 0, 0, 1, 1, 1, 1] [t1, t2] w) ! 1) = None
       \<and> snd (run_schedule env [0, 0, 0, 0, 1, 1, 1, 1] [t1, t2] w)
           = snd (run_schedule env [0, 0, 0, 0] [t1, t2] w)"
proof -
  let ?four = "Suc (Suc (Suc (Suc 0)))"
  obtain t1' w1 where first: "steps env ?four t1 w = (t1', w1)"
    by (cases "steps env ?four t1 w")
  have "returned_fix t1' = Some f"
    using assms(5) unfolding run_one_after_the_other first by simp
  from decided_is_visible [OF assms(1) first this assms(6)] obtain pf' where
    pf': "proposedFix_findUnique (target t1) w1 = Some pf'"
      "status (the_fix pf') \<noteq> PENDING" "userId (the_project pf') = caller t1"
    by blast
  have "thrown (fst (steps env ?four t2 w1)) = Some \<lparr>code = BAD_REQUEST, message = ''Fix already processed''\<rparr>
       \<and> returned_fix (fst (steps env ?four t2 w1)) = None
       \<and> snd (steps env ?four t2 w1) = w1"
    using pf' assms(3,4) by (intro processed_is_refused [OF assms(2)]) simp_all
  then show ?thesis
    unfolding run_one_after_the_other run_first first by (simp del: steps.simps)
qed

theorem second_call_after_decision_is_refused_witness:
  "starting approve_task \<and> starting reject_task
   \<and> target reject_task = target approve_task \<and> caller reject_task = caller approve_task
   \<and> returned_fix (fst (run_schedule demo_env [0, 0, 0, 0, 1, 1, 1, 1] [approve_task, reject_task] demo_world) ! 0)
       = Some (demo_fix\<lparr>status := APPROVED, reviewedBy := Some ''alice'', reviewedAt := Some 7,
                 feedback := Some ''Fix applied successfully''\<rparr>)
   \<and> thrown (fst (run_schedule demo_env [0, 0, 0, 0, 1, 1, 1, 1] [approve_task, reject_task] demo_world) ! 1)
       = Some \<lparr>code = BAD_REQUEST, message = ''Fix already processed''\<rparr>
   \<and> map status (proposedFixes (snd (run_schedule demo_env [0, 0, 0, 0, 1, 1, 1, 1]
                                        [approve_task, reject_task] demo_world)))
       = [APPROVED]"
proof -
  let ?f = "demo_fix\<lparr>status := APPROVED, reviewedBy := Some ''alice'', reviewedAt := Some 7,
                 feedback := Some ''Fix applied successfully''\<rparr>"
  have s1: "starting approve_task" and s2: "starting reject_task"
    and same: "target reject_task = target approve_task"
    and who: "caller reject_task = caller approve_task"
    by (simp_all add: approve_task_def reject_task_def demo_approve_def demo_reject_def)
  have first: "returned_fix (fst (run_schedule demo_env [0, 0, 0, 0, 1, 1, 1, 1] [approve_task, reject_task] demo_world) ! 0)
       = Some ?f"
    by (simp add: approve_defs demo_defs)
  have decided: "status ?f \<noteq> PENDING"
    by simp
  have alone: "map status (proposedFixes (snd (run_schedule demo_env [0, 0, 0, 0]
                                        [approve_task, reject_task] demo_world)))
       = [APPROVED]"
    by (simp add: approve_defs demo_defs)
  from second_call_after_decision_is_refused [OF s1 s2 same who first decided] alone
  have "thrown (fst (run_schedule demo_env [0, 0, 0, 0, 1, 1, 1, 1] [approve_task, reject_task] demo_world) ! 1)
       = Some \<lparr>code = BAD_REQUEST, message = ''Fix already processed''\<rparr>
   \<and> map status (proposedFixes (snd (run_schedule demo_env [0, 0, 0, 0, 1, 1, 1, 1]
                                        [approve_task, reject_task] demo_world)))
       = [APPROVED]"
    by simp
  with s1 s2 same who first show ?thesis by blast
qed

text \<open>
  Claim C1 as stated fails when the two calls overlap. The approval and the rejection both
  read the fix while it is pending; the approval then runs to its end and the rejection
  follows. Both return a row, neither throws, and the rejection has overwritten the
  approval.
\<close>

theorem overlapping_calls_both_succeed:
  "returned_fix (fst (run_schedule demo_env [0, 1, 0, 0, 0, 1, 1] [approve_task, reject_task] demo_world) ! 0)
     = Some (demo_fix\<lparr>status := APPROVED, reviewedBy := Some ''alice'', reviewedAt := Some 7,
               feedback := Some ''Fix applied successfully''\<rparr>)
   \<and> returned_fix (fst (run_schedule demo_env [0, 1, 0, 0, 0, 1, 1] [approve_task, reject_task] demo_world) ! 1)
     = Some (demo_fix\<lparr>status := REJECTED, reviewedBy := Some ''alice'', reviewedAt := Some 8,
               feedback := Some ''wrong fix''\<rparr>)
   \<and> thrown (fst (run_schedule demo_env [0, 1, 0, 0, 0, 1, 1] [approve_task, reject_task] demo_world) ! 0)
     = None
   \<and> thrown (fst (run_schedule demo_env [0, 1, 0, 0, 0, 1, 1] [approve_task, reject_task] demo_world) ! 1)
     = None
   \<and> map status (proposedFixes (snd (run_schedule demo_env [0, 1, 0, 0, 0, 1, 1]
                                        [approve_task, reject_task] demo_world)))
     = [REJECTED]
   \<and> map content (messages (snd (run_schedule demo_env [0, 1, 0, 0, 0, 1, 1]
                                        [approve_task, reject_task] demo_world)))
     = [Plain ''Error occurred: boom'',
        Plain (check_mark @ '' Fix applied: reinstall''),
        Plain (cross_mark @ '' Fix rejected: reinstall. Reason: wrong fix'')]"
  by (simp add: approve_defs demo_defs)


end
